theory Spec2Isabelle
  imports Complex_Main "HOL-Library.Multiset"
begin

section \<open>JavaScript values\<close>

text \<open>
  A JavaScript number is a finite value, one of the two infinities, or NaN. Finite values
  are taken as exact reals: the rounding of IEEE doubles, overflow and the sign of zero
  are not modelled. Every arithmetic operator the analytics use is written out, so that
  a division by zero or a failed numeric parse is a value of the model (NaN or an
  infinity) and not HOL's \<open>x / 0 = 0\<close>.
\<close>

datatype number = Fin real | PInf | NInf | NaN

fun js_neg :: "number \<Rightarrow> number" where
  "js_neg (Fin a) = Fin (- a)"
| "js_neg PInf = NInf"
| "js_neg NInf = PInf"
| "js_neg NaN = NaN"

fun js_add :: "number \<Rightarrow> number \<Rightarrow> number" where
  "js_add (Fin a) (Fin b) = Fin (a + b)"
| "js_add NaN _ = NaN"
| "js_add _ NaN = NaN"
| "js_add PInf NInf = NaN"
| "js_add NInf PInf = NaN"
| "js_add PInf _ = PInf"
| "js_add _ PInf = PInf"
| "js_add NInf _ = NInf"
| "js_add _ NInf = NInf"

definition js_sub :: "number \<Rightarrow> number \<Rightarrow> number" where
  "js_sub a b = js_add a (js_neg b)"

fun js_abs :: "number \<Rightarrow> number" where
  "js_abs (Fin a) = Fin \<bar>a\<bar>"
| "js_abs PInf = PInf"
| "js_abs NInf = PInf"
| "js_abs NaN = NaN"

text \<open>The sign of a number, used by multiplication and division: \<open>None\<close> for NaN.\<close>

fun js_sign :: "number \<Rightarrow> int option" where
  "js_sign (Fin a) = Some (if a = 0 then 0 else if 0 < a then 1 else -1)"
| "js_sign PInf = Some 1"
| "js_sign NInf = Some (-1)"
| "js_sign NaN = None"

definition signed_inf :: "int \<Rightarrow> number" where
  "signed_inf s = (if s = 0 then NaN else if 0 < s then PInf else NInf)"

fun js_mul :: "number \<Rightarrow> number \<Rightarrow> number" where
  "js_mul (Fin a) (Fin b) = Fin (a * b)"
| "js_mul a b =
     (case (js_sign a, js_sign b) of
        (Some s, Some t) \<Rightarrow> signed_inf (s * t)
      | _ \<Rightarrow> NaN)"

text \<open>
  Division: a finite value over zero is an infinity of the numerator's sign (the zero is
  taken as \<open>+0\<close>), zero over zero is NaN, a finite value over an infinity is zero.
\<close>

fun js_div :: "number \<Rightarrow> number \<Rightarrow> number" where
  "js_div (Fin a) (Fin b) =
     (if b = 0 then (if a = 0 then NaN else if 0 < a then PInf else NInf)
      else Fin (a / b))"
| "js_div NaN _ = NaN"
| "js_div _ NaN = NaN"
| "js_div (Fin a) _ = Fin 0"
| "js_div PInf (Fin b) = (if 0 \<le> b then PInf else NInf)"
| "js_div NInf (Fin b) = (if 0 \<le> b then NInf else PInf)"
| "js_div _ _ = NaN"

text \<open>Comparisons: every comparison with NaN is false.\<close>

fun js_lt :: "number \<Rightarrow> number \<Rightarrow> bool" where
  "js_lt (Fin a) (Fin b) = (a < b)"
| "js_lt NaN _ = False"
| "js_lt _ NaN = False"
| "js_lt _ NInf = False"
| "js_lt PInf _ = False"
| "js_lt _ _ = True"

definition js_gt :: "number \<Rightarrow> number \<Rightarrow> bool" where
  "js_gt a b = js_lt b a"

fun js_ge :: "number \<Rightarrow> number \<Rightarrow> bool" where
  "js_ge NaN _ = False"
| "js_ge _ NaN = False"
| "js_ge a b = (\<not> js_lt a b)"

text \<open>
  The values \<open>JSON.parse\<close> can return. An object is the list of its own properties,
  one entry per key.
\<close>

datatype json =
    JNull
  | JBool bool
  | JNum real
  | JStr string
  | JArr "json list"
  | JObj "(string \<times> json) list"

datatype error = TypeError | RangeError | ReferenceError

text \<open>\<open>Boolean(v)\<close>, the truthiness that \<open>||\<close>, \<open>&&\<close>, \<open>!\<close> and \<open>filter(Boolean)\<close> test.\<close>

fun Boolean :: "json \<Rightarrow> bool" where
  "Boolean JNull = False"
| "Boolean (JBool b) = b"
| "Boolean (JNum n) = (n \<noteq> 0)"
| "Boolean (JStr s) = (s \<noteq> [])"
| "Boolean (JArr _) = True"
| "Boolean (JObj _) = True"

text \<open>
  \<open>Object.values(v)\<close>: the property values of an object, the elements of an array, the
  one-character strings of a string, nothing for a number or a boolean, and a TypeError
  for \<open>null\<close>.
\<close>

fun Object_values :: "json \<Rightarrow> error + json list" where
  "Object_values JNull = Inl TypeError"
| "Object_values (JBool _) = Inr []"
| "Object_values (JNum _) = Inr []"
| "Object_values (JStr s) = Inr (map (\<lambda>c. JStr [c]) s)"
| "Object_values (JArr xs) = Inr xs"
| "Object_values (JObj kvs) = Inr (map snd kvs)"

section \<open>The checklist hook: adherence score, level and notes\<close>

text \<open>
  \<open>ChecklistAdherence\<close> is declared as \<open>{ [itemId: string]: boolean }\<close>; as a JavaScript
  value it is an object whose property values are booleans.
\<close>

type_synonym ChecklistAdherence = "(string \<times> bool) list"

definition adherenceMap :: "ChecklistAdherence \<Rightarrow> json" where
  "adherenceMap m = JObj (map (\<lambda>(k, b). (k, JBool b)) m)"

definition calculateAdherenceScore :: "json \<Rightarrow> error + number" where
  "calculateAdherenceScore checklist =
     (case Object_values checklist of
        Inl e \<Rightarrow> Inl e
      | Inr items \<Rightarrow>
          if length items = 0 then Inr (Fin 0)
          else
            let followedItems = length (filter Boolean items)
            in Inr (js_mul (js_div (Fin (real followedItems)) (Fin (real (length items))))
                           (Fin 100)))"

definition getAdherenceLevel :: "number \<Rightarrow> string" where
  "getAdherenceLevel score =
     (if js_ge score (Fin 90) then ''Excellent''
      else if js_ge score (Fin 75) then ''Good''
      else if js_ge score (Fin 50) then ''Fair''
      else if js_ge score (Fin 25) then ''Poor''
      else ''Very Poor'')"

subsection \<open>The notes of a trade\<close>

text \<open>
  \<open>parseTradeNotes\<close> reads a trade's notes. \<open>JSON.parse\<close> belongs to the JavaScript
  runtime and is a parameter of the model: \<open>JSON_parse s\<close> is \<open>None\<close> when the runtime
  throws a SyntaxError on \<open>s\<close>. A property that an object does not have reads as
  \<open>undefined\<close>, here \<open>None\<close>.
\<close>

record TradeWithChecklist =
  checklist :: "json option"
  userNotes :: json

fun typeof :: "json \<Rightarrow> string" where
  "typeof JNull = ''object''"
| "typeof (JBool _) = ''boolean''"
| "typeof (JNum _) = ''number''"
| "typeof (JStr _) = ''string''"
| "typeof (JArr _) = ''object''"
| "typeof (JObj _) = ''object''"

text \<open>Decimal digits, for the index keys of an array.\<close>

definition digit_char :: "nat \<Rightarrow> char" where
  "digit_char n = ''0123456789'' ! n"

fun show_nat :: "nat \<Rightarrow> string" where
  "show_nat n = (if n < 10 then [digit_char n] else show_nat (n div 10) @ [digit_char (n mod 10)])"

declare show_nat.simps [simp del]

text \<open>
  \<open>v[k]\<close> for a JSON value \<open>v\<close>, as far as the result can be a JSON value: the property
  \<open>k\<close> of an object, the element of an array whose index is written \<open>k\<close>. The other
  properties a value has (\<open>length\<close>, the characters of a string, the methods inherited
  from the prototypes) are numbers, strings and functions: they are never \<open>true\<close> or
  \<open>false\<close>, and none is named \<open>checklist\<close> or \<open>userNotes\<close>.
\<close>

fun json_member :: "json \<Rightarrow> string \<Rightarrow> json option" where
  "json_member (JObj kvs) k = map_of kvs k"
| "json_member (JArr xs) k = map_of (zip (map show_nat [0..<length xs]) xs) k"
| "json_member _ k = None"

text \<open>\<open>'checklist' in v\<close>, evaluated only where \<open>typeof v\<close> is \<open>object\<close> and \<open>v\<close> is not null.\<close>

definition has_checklist :: "json \<Rightarrow> bool" where
  "has_checklist v = (case v of JObj kvs \<Rightarrow> ''checklist'' \<in> fst ` set kvs | _ \<Rightarrow> False)"

text \<open>\<open>x || d\<close> for a property read \<open>x\<close>.\<close>

definition or_else :: "json option \<Rightarrow> json \<Rightarrow> json" where
  "or_else x d = (case x of None \<Rightarrow> d | Some v \<Rightarrow> if Boolean v then v else d)"

definition parseTradeNotes :: "(string \<Rightarrow> json option) \<Rightarrow> string option \<Rightarrow> TradeWithChecklist" where
  "parseTradeNotes JSON_parse notes =
     (case notes of
        None \<Rightarrow> \<lparr>checklist = None, userNotes = JStr []\<rparr>
      | Some text \<Rightarrow>
          if text = [] then \<lparr>checklist = None, userNotes = JStr []\<rparr>
          else
            (case JSON_parse text of
               None \<Rightarrow> \<lparr>checklist = None, userNotes = JStr text\<rparr>
             | Some parsed \<Rightarrow>
                 if Boolean parsed \<and> typeof parsed = ''object'' \<and> has_checklist parsed
                 then \<lparr>checklist = Some (or_else (json_member parsed ''checklist'') (JObj [])),
                       userNotes = or_else (json_member parsed ''userNotes'') (JStr [])\<rparr>
                 else \<lparr>checklist = None, userNotes = JStr text\<rparr>))"

subsection \<open>The checklist items and the hook's result\<close>

record ChecklistItem =
  item_id :: string
  item_name :: string
  category :: string
  description :: "string option"

text \<open>\<open>Partial<ChecklistItem>\<close>: the fields an update sets.\<close>

record ChecklistItemUpdates =
  set_id :: "string option"
  set_name :: "string option"
  set_category :: "string option"
  set_description :: "string option option"

definition apply_updates :: "ChecklistItem \<Rightarrow> ChecklistItemUpdates \<Rightarrow> ChecklistItem" where
  "apply_updates item u =
     \<lparr>item_id = (case set_id u of None \<Rightarrow> item_id item | Some v \<Rightarrow> v),
      item_name = (case set_name u of None \<Rightarrow> item_name item | Some v \<Rightarrow> v),
      category = (case set_category u of None \<Rightarrow> category item | Some v \<Rightarrow> v),
      description = (case set_description u of None \<Rightarrow> description item | Some v \<Rightarrow> v)\<rparr>"

text \<open>
  The state of the hook is the list \<open>checklistItems\<close>. \<open>saveChecklistItems\<close> replaces it,
  unless writing to local storage throws (\<open>stored = False\<close>): the exception is caught
  and the list stays as it was.
\<close>

definition saveChecklistItems :: "bool \<Rightarrow> ChecklistItem list \<Rightarrow> ChecklistItem list \<Rightarrow> ChecklistItem list" where
  "saveChecklistItems stored items checklistItems = (if stored then items else checklistItems)"

definition updateChecklistItem ::
  "bool \<Rightarrow> string \<Rightarrow> ChecklistItemUpdates \<Rightarrow> ChecklistItem list \<Rightarrow> ChecklistItem list" where
  "updateChecklistItem stored i updates checklistItems =
     saveChecklistItems stored
       (map (\<lambda>item. if item_id item = i then apply_updates item updates else item) checklistItems)
       checklistItems"

definition deleteChecklistItem :: "bool \<Rightarrow> string \<Rightarrow> ChecklistItem list \<Rightarrow> ChecklistItem list" where
  "deleteChecklistItem stored i checklistItems =
     saveChecklistItems stored (filter (\<lambda>item. item_id item \<noteq> i) checklistItems) checklistItems"

text \<open>
  What \<open>useChecklist()\<close> returns when its state is \<open>items\<close>: the list and the functions
  that the charts take from it.
\<close>

record ChecklistHook =
  checklistItems :: "ChecklistItem list"
  hook_parseTradeNotes :: "string option \<Rightarrow> TradeWithChecklist"
  hook_calculateAdherenceScore :: "json \<Rightarrow> error + number"
  hook_getAdherenceLevel :: "number \<Rightarrow> string"
  preTradeItems :: "ChecklistItem list"
  postTradeItems :: "ChecklistItem list"

definition useChecklist :: "(string \<Rightarrow> json option) \<Rightarrow> ChecklistItem list \<Rightarrow> ChecklistHook" where
  "useChecklist JSON_parse items =
     \<lparr>checklistItems = items,
      hook_parseTradeNotes = parseTradeNotes JSON_parse,
      hook_calculateAdherenceScore = calculateAdherenceScore,
      hook_getAdherenceLevel = getAdherenceLevel,
      preTradeItems = filter (\<lambda>item. category item = ''pre-trade'') items,
      postTradeItems = filter (\<lambda>item. category item = ''post-trade'') items\<rparr>"


section \<open>Trades, strategies and numeric text\<close>

text \<open>
  Modelled from the spec: the \<open>Trade\<close> type and the strategy records come from the shared
  schema, which is not among the source files. The fields are the ones the charts read:
  prices and profit/loss are stored as text and parsed where they are used, the quantity
  is an integer, each of the optional fields may be \<open>null\<close>; \<open>tradeNotes\<close> is the
  field \<open>notes\<close>.
\<close>

record Trade =
  strategy :: "string option"
  stockName :: string
  tradeDate :: string
  entryPrice :: "string option"
  exitPrice :: "string option"
  stopLoss :: "string option"
  quantity :: int
  profitLoss :: "string option"
  emotion :: "string option"
  tradeNotes :: "string option"

record Strategy =
  strategy_id :: string
  status :: string

text \<open>\<open>x && ...\<close> on an optional text field: \<open>null\<close> and the empty string are falsy.\<close>

definition truthy_text :: "string option \<Rightarrow> bool" where
  "truthy_text x = (case x of None \<Rightarrow> False | Some s \<Rightarrow> s \<noteq> [])"

text \<open>\<open>x?.toString() || "0"\<close> on an optional text field.\<close>

definition text_or_0 :: "string option \<Rightarrow> string" where
  "text_or_0 x = (case x of None \<Rightarrow> ''0'' | Some s \<Rightarrow> if s = [] then ''0'' else s)"

text \<open>
  \<open>parseFloat\<close>, after the language standard: leading white space is skipped (the ASCII
  white space characters here), then the longest prefix that is a decimal literal is
  read (a sign, then \<open>Infinity\<close>, or digits with an optional fraction and an optional
  exponent); the rest of the text is ignored, and the result is NaN when there is no
  such prefix.
\<close>

definition is_space :: "char \<Rightarrow> bool" where
  "is_space c = (c \<in> set [CHR 0x09, CHR 0x0A, CHR 0x0B, CHR 0x0C, CHR 0x0D, CHR 0x20])"

definition is_digit :: "char \<Rightarrow> bool" where
  "is_digit c = (c \<in> set ''0123456789'')"

definition digits_val :: "string \<Rightarrow> nat" where
  "digits_val ds = foldl (\<lambda>a c. 10 * a + (of_char c - 48)) 0 ds"

definition scale10 :: "real \<Rightarrow> int \<Rightarrow> real" where
  "scale10 x e = (if 0 \<le> e then x * 10 ^ nat e else x / 10 ^ nat (- e))"

text \<open>The exponent part at the head of a text, 0 when there is none.\<close>

definition exponent_part :: "string \<Rightarrow> int" where
  "exponent_part s =
     (case s of
        [] \<Rightarrow> 0
      | c # r \<Rightarrow>
          if c = CHR ''e'' \<or> c = CHR ''E'' then
            (case r of
               [] \<Rightarrow> 0
             | d # r' \<Rightarrow>
                 if d = CHR ''-'' then
                   (if takeWhile is_digit r' = [] then 0 else - int (digits_val (takeWhile is_digit r')))
                 else if d = CHR ''+'' then int (digits_val (takeWhile is_digit r'))
                 else int (digits_val (takeWhile is_digit r)))
          else 0)"

definition unsigned_literal :: "string \<Rightarrow> number" where
  "unsigned_literal s =
     (if take 8 s = ''Infinity'' then PInf
      else
        let ip = takeWhile is_digit s;
            r1 = dropWhile is_digit s;
            fp = (case r1 of [] \<Rightarrow> [] | c # r \<Rightarrow> if c = CHR ''.'' then takeWhile is_digit r else []);
            r2 = (case r1 of [] \<Rightarrow> [] | c # r \<Rightarrow> if c = CHR ''.'' then dropWhile is_digit r else r1)
        in if ip = [] \<and> fp = [] then NaN
           else Fin (scale10 (real (digits_val (ip @ fp)) / 10 ^ length fp) (exponent_part r2)))"

definition parseFloat :: "string \<Rightarrow> number" where
  "parseFloat s =
     (case dropWhile is_space s of
        [] \<Rightarrow> NaN
      | c # r \<Rightarrow>
          if c = CHR ''-'' then js_neg (unsigned_literal r)
          else if c = CHR ''+'' then unsigned_literal r
          else unsigned_literal (c # r))"

text \<open>
  Modelled from the spec: \<open>getActiveStrategyTrades\<close> is in \<open>lib/calculations\<close>, which is
  not among the source files. After the spec: with an empty strategy list every trade
  passes; otherwise a trade passes when its strategy reference resolves to a strategy
  whose status is \<open>active\<close>, and a trade with no reference does not pass.
\<close>

definition is_active_trade :: "Strategy list \<Rightarrow> Trade \<Rightarrow> bool" where
  "is_active_trade strategies trade =
     (case strategy trade of
        None \<Rightarrow> False
      | Some k \<Rightarrow>
          (case find (\<lambda>s. strategy_id s = k) strategies of
             None \<Rightarrow> False
           | Some s \<Rightarrow> status s = ''active''))"

definition getActiveStrategyTrades :: "Trade list \<Rightarrow> Strategy list \<Rightarrow> Trade list" where
  "getActiveStrategyTrades trades strategies =
     (if strategies = [] then trades else filter (is_active_trade strategies) trades)"

text \<open>
  Modelled from the spec: \<open>calculateTotalPnL\<close> is in \<open>lib/calculations\<close> too. After the
  spec it is the sum of the parsed profit/loss of the trades, a text that does not parse
  to a finite number counting as 0. The charts call it with the strategy list; after the
  spec's rule that trades of strategies that are not active are left out of every
  analytic, the sum is over the trades that pass the activity filter. On trades that
  have passed the filter already, as in the checklist adherence chart, it is the plain
  sum.
\<close>

definition pnl_or_zero :: "Trade \<Rightarrow> real" where
  "pnl_or_zero trade =
     (case parseFloat (text_or_0 (profitLoss trade)) of Fin r \<Rightarrow> r | _ \<Rightarrow> 0)"

definition calculateTotalPnL :: "Trade list \<Rightarrow> Strategy list \<Rightarrow> number" where
  "calculateTotalPnL trades strategies =
     Fin (sum_list (map pnl_or_zero (getActiveStrategyTrades trades strategies)))"

text \<open>
  \<open>Array.prototype.sort\<close> with a comparator. The sort is stable, and a comparator result
  of NaN counts as 0. \<open>x\<close> goes before the first element that it does not compare
  greater than, which for a consistent comparator is the one order a stable sort can
  give; for an inconsistent one the standard leaves the order to the implementation.
\<close>

definition not_after :: "number \<Rightarrow> bool" where
  "not_after c = (case c of NaN \<Rightarrow> True | _ \<Rightarrow> \<not> js_gt c (Fin 0))"

fun insert_by :: "('a \<Rightarrow> 'a \<Rightarrow> number) \<Rightarrow> 'a \<Rightarrow> 'a list \<Rightarrow> 'a list" where
  "insert_by cmp x [] = [x]"
| "insert_by cmp x (y # ys) =
     (if not_after (cmp x y) then x # y # ys else y # insert_by cmp x ys)"

definition js_sort :: "('a \<Rightarrow> 'a \<Rightarrow> number) \<Rightarrow> 'a list \<Rightarrow> 'a list" where
  "js_sort cmp xs = foldr (insert_by cmp) xs []"

text \<open>
  An object used as a dictionary of groups, as the list of its entries in insertion
  order: \<open>if (!acc[k]) acc[k] = init; acc[k] = f(acc[k])\<close>.
\<close>

fun upsert :: "'k \<Rightarrow> 'v \<Rightarrow> ('v \<Rightarrow> 'v) \<Rightarrow> ('k \<times> 'v) list \<Rightarrow> ('k \<times> 'v) list" where
  "upsert k init f [] = [(k, f init)]"
| "upsert k init f ((k', v) # kvs) =
     (if k' = k then (k', f v) # kvs else (k', v) # upsert k init f kvs)"

text \<open>A callback that may throw, mapped over an array: the first exception ends the map.\<close>

fun mapE :: "('a \<Rightarrow> error + 'b) \<Rightarrow> 'a list \<Rightarrow> error + 'b list" where
  "mapE f [] = Inr []"
| "mapE f (x # xs) =
     (case f x of
        Inl e \<Rightarrow> Inl e
      | Inr y \<Rightarrow> (case mapE f xs of Inl e \<Rightarrow> Inl e | Inr ys \<Rightarrow> Inr (y # ys)))"


section \<open>The checklist adherence chart\<close>

text \<open>
  A trade with its checklist data: \<open>{ ...trade, checklist, userNotes, adherenceScore,
  adherenceLevel, pnl, isWin }\<close>. The trade's own fields are kept under \<open>tw_trade\<close>.
\<close>

record TradeData =
  tw_trade :: Trade
  tw_checklist :: json
  tw_userNotes :: json
  adherenceScore :: number
  adherenceLevel :: string
  pnl :: number
  isWin :: bool

definition withChecklistData :: "ChecklistHook \<Rightarrow> Trade \<Rightarrow> error + TradeData" where
  "withChecklistData h t =
     (let parsed = hook_parseTradeNotes h (tradeNotes t);
          score = (case checklist parsed of
                     None \<Rightarrow> Inr (Fin 0)
                   | Some c \<Rightarrow> if Boolean c then hook_calculateAdherenceScore h c else Inr (Fin 0));
          p = parseFloat (text_or_0 (profitLoss t))
      in case score of
           Inl e \<Rightarrow> Inl e
         | Inr sc \<Rightarrow>
             Inr \<lparr>tw_trade = t,
                  tw_checklist = or_else (checklist parsed) (JObj []),
                  tw_userNotes = or_else (Some (userNotes parsed)) (JStr []),
                  adherenceScore = sc,
                  adherenceLevel = hook_getAdherenceLevel h sc,
                  pnl = p,
                  isWin = js_gt p (Fin 0)\<rparr>)"

definition tradesWithChecklist :: "ChecklistHook \<Rightarrow> Trade list \<Rightarrow> Strategy list \<Rightarrow> error + TradeData list" where
  "tradesWithChecklist h trades strategies =
     mapE (withChecklistData h) (getActiveStrategyTrades trades strategies)"

definition adherenceGroups :: "TradeData list \<Rightarrow> (string \<times> TradeData list) list" where
  "adherenceGroups tws = foldl (\<lambda>acc t. upsert (adherenceLevel t) [] (\<lambda>g. g @ [t]) acc) [] tws"

definition getAdherenceColor :: "string \<Rightarrow> string" where
  "getAdherenceColor lvl =
     (if lvl = ''Excellent'' then ''hsl(142, 76%, 36%)''
      else if lvl = ''Good'' then ''hsl(45, 93%, 47%)''
      else if lvl = ''Fair'' then ''hsl(221, 83%, 53%)''
      else if lvl = ''Poor'' then ''hsl(0, 84%, 60%)''
      else if lvl = ''Very Poor'' then ''hsl(0, 70%, 50%)''
      else ''hsl(210, 40%, 60%)'')"

definition getAdherenceSortOrder :: "string \<Rightarrow> int" where
  "getAdherenceSortOrder lvl =
     (if lvl = ''Excellent'' then 1
      else if lvl = ''Good'' then 2
      else if lvl = ''Fair'' then 3
      else if lvl = ''Poor'' then 4
      else if lvl = ''Very Poor'' then 5
      else 6)"

record LevelRow =
  row_level :: string
  row_trades :: nat
  row_totalPnL :: number
  row_winRate :: number
  row_avgPnL :: number
  row_color :: string

definition levelRow :: "Strategy list \<Rightarrow> string \<times> TradeData list \<Rightarrow> LevelRow" where
  "levelRow strategies entry =
     (let lvl = fst entry;
          levelTrades = snd entry;
          total = calculateTotalPnL (map tw_trade levelTrades) strategies
      in \<lparr>row_level = lvl,
          row_trades = length levelTrades,
          row_totalPnL = total,
          row_winRate =
            (if length levelTrades > 0
             then js_mul (js_div (Fin (real (length (filter isWin levelTrades))))
                                 (Fin (real (length levelTrades)))) (Fin 100)
             else Fin 0),
          row_avgPnL =
            (if length levelTrades > 0 then js_div total (Fin (real (length levelTrades)))
             else Fin 0),
          row_color = getAdherenceColor lvl\<rparr>)"

definition adherenceData :: "TradeData list \<Rightarrow> Strategy list \<Rightarrow> LevelRow list" where
  "adherenceData tws strategies =
     js_sort (\<lambda>a b. js_sub (Fin (real_of_int (getAdherenceSortOrder (row_level a))))
                            (Fin (real_of_int (getAdherenceSortOrder (row_level b)))))
       (map (levelRow strategies) (adherenceGroups tws))"

record ItemRow =
  ia_item :: string
  ia_category :: string
  followedTrades :: nat
  notFollowedTrades :: nat
  followedPnL :: number
  notFollowedPnL :: number
  followedWinRate :: number
  notFollowedWinRate :: number
  impact :: number
  winRateImpact :: number

text \<open>\<open>trade.checklist[item.id] === b\<close> for a boolean \<open>b\<close>.\<close>

definition checked_as :: "bool \<Rightarrow> ChecklistItem \<Rightarrow> TradeData \<Rightarrow> bool" where
  "checked_as b item t = (json_member (tw_checklist t) (item_id item) = Some (JBool b))"

definition itemRow :: "TradeData list \<Rightarrow> Strategy list \<Rightarrow> ChecklistItem \<Rightarrow> ItemRow" where
  "itemRow tws strategies item =
     (let followed = filter (checked_as True item) tws;
          notFollowed = filter (checked_as False item) tws;
          fPnL = (if length followed > 0
                  then js_div (calculateTotalPnL (map tw_trade followed) strategies)
                              (Fin (real (length followed)))
                  else Fin 0);
          nPnL = (if length notFollowed > 0
                  then js_div (calculateTotalPnL (map tw_trade notFollowed) strategies)
                              (Fin (real (length notFollowed)))
                  else Fin 0);
          fWin = (if length followed > 0
                  then js_mul (js_div (Fin (real (length (filter isWin followed))))
                                      (Fin (real (length followed)))) (Fin 100)
                  else Fin 0);
          nWin = (if length notFollowed > 0
                  then js_mul (js_div (Fin (real (length (filter isWin notFollowed))))
                                      (Fin (real (length notFollowed)))) (Fin 100)
                  else Fin 0)
      in \<lparr>ia_item = item_name item,
          ia_category = category item,
          followedTrades = length followed,
          notFollowedTrades = length notFollowed,
          followedPnL = fPnL,
          notFollowedPnL = nPnL,
          followedWinRate = fWin,
          notFollowedWinRate = nWin,
          impact = js_sub fPnL nPnL,
          winRateImpact = js_sub fWin nWin\<rparr>)"

definition itemAnalysis :: "ChecklistHook \<Rightarrow> TradeData list \<Rightarrow> Strategy list \<Rightarrow> ItemRow list" where
  "itemAnalysis h tws strategies =
     filter (\<lambda>r. followedTrades r > 0 \<or> notFollowedTrades r > 0)
       (map (itemRow tws strategies) (checklistItems h))"

text \<open>
  The component computes the two tables and then builds its elements. The card of an
  item row is built from \<open>Badge\<close>, a name that the module neither imports nor declares:
  evaluating it throws a ReferenceError. The cards are built when \<open>itemAnalysis\<close> is not
  empty; otherwise a placeholder is drawn. So the component returns its elements when
  there is no item row, and ends with the exception when there is one.
\<close>

definition ChecklistAdherenceChart ::
  "ChecklistHook \<Rightarrow> Trade list \<Rightarrow> Strategy list \<Rightarrow> error + (LevelRow list \<times> ItemRow list)" where
  "ChecklistAdherenceChart h trades strategies =
     (case tradesWithChecklist h trades strategies of
        Inl e \<Rightarrow> Inl e
      | Inr tws \<Rightarrow>
          if length (itemAnalysis h tws strategies) = 0
          then Inr (adherenceData tws strategies, itemAnalysis h tws strategies)
          else Inl ReferenceError)"

section \<open>The discipline page: top impact items\<close>

text \<open>
  \<open>Object.keys(v)\<close>: the keys of an object, the indices of an array or of a string, and
  a TypeError for \<open>null\<close>.
\<close>

fun Object_keys :: "json \<Rightarrow> error + string list" where
  "Object_keys JNull = Inl TypeError"
| "Object_keys (JBool _) = Inr []"
| "Object_keys (JNum _) = Inr []"
| "Object_keys (JStr s) = Inr (map show_nat [0..<length s])"
| "Object_keys (JArr xs) = Inr (map show_nat [0..<length xs])"
| "Object_keys (JObj kvs) = Inr (map fst kvs)"

fun filterE :: "('a \<Rightarrow> error + bool) \<Rightarrow> 'a list \<Rightarrow> error + 'a list" where
  "filterE f [] = Inr []"
| "filterE f (x # xs) =
     (case f x of
        Inl e \<Rightarrow> Inl e
      | Inr b \<Rightarrow>
          (case filterE f xs of
             Inl e \<Rightarrow> Inl e
           | Inr ys \<Rightarrow> Inr (if b then x # ys else ys)))"

definition has_checklist_data :: "TradeData \<Rightarrow> error + bool" where
  "has_checklist_data t =
     (case Object_keys (tw_checklist t) of Inl e \<Rightarrow> Inl e | Inr ks \<Rightarrow> Inr (length ks > 0))"

record ImpactRow =
  ti_item :: ChecklistItem
  ti_impact :: number
  ti_followedTrades :: nat
  ti_notFollowedTrades :: nat

definition impactRow :: "TradeData list \<Rightarrow> Strategy list \<Rightarrow> ChecklistItem \<Rightarrow> ImpactRow" where
  "impactRow tws strategies item =
     (let followed = filter (checked_as True item) tws;
          notFollowed = filter (checked_as False item) tws;
          fPnL = (if length followed > 0
                  then js_div (calculateTotalPnL (map tw_trade followed) strategies)
                              (Fin (real (length followed)))
                  else Fin 0);
          nPnL = (if length notFollowed > 0
                  then js_div (calculateTotalPnL (map tw_trade notFollowed) strategies)
                              (Fin (real (length notFollowed)))
                  else Fin 0)
      in \<lparr>ti_item = item,
          ti_impact = js_sub fPnL nPnL,
          ti_followedTrades = length followed,
          ti_notFollowedTrades = length notFollowed\<rparr>)"

definition topImpactItems :: "ChecklistHook \<Rightarrow> TradeData list \<Rightarrow> Strategy list \<Rightarrow> ImpactRow list" where
  "topImpactItems h tws strategies =
     take 5
       (js_sort (\<lambda>a b. js_sub (js_abs (ti_impact b)) (js_abs (ti_impact a)))
          (filter (\<lambda>r. ti_followedTrades r > 0 \<or> ti_notFollowedTrades r > 0)
             (map (impactRow tws strategies) (checklistItems h))))"

text \<open>
  The page maps the trades of the selected time range (\<open>filteredTrades\<close>, not restricted
  to active strategies), keeps those whose checklist has a key, and ranks the items.
  With no checklist item the page returns a notice before it comes to the ranking, which
  would be empty.
\<close>

definition Discipline_topImpact ::
  "ChecklistHook \<Rightarrow> Trade list \<Rightarrow> Strategy list \<Rightarrow> error + ImpactRow list" where
  "Discipline_topImpact h filteredTrades strategies =
     (case mapE (withChecklistData h) filteredTrades of
        Inl e \<Rightarrow> Inl e
      | Inr tws \<Rightarrow>
          (case filterE has_checklist_data tws of
             Inl e \<Rightarrow> Inl e
           | Inr tradesWithChecklistData \<Rightarrow>
               Inr (topImpactItems h tradesWithChecklistData strategies)))"

section \<open>The risk-reward chart\<close>

record RiskRewardRow =
  rr_risk :: number
  rr_reward :: number
  rr_ratio :: number
  rr_pnl :: number
  rr_stockName :: string
  rr_tradeDate :: string
  rr_isWin :: bool

definition has_prices :: "Trade \<Rightarrow> bool" where
  "has_prices t = (truthy_text (entryPrice t) \<and> truthy_text (exitPrice t) \<and> truthy_text (stopLoss t))"

definition riskRewardRow :: "Trade \<Rightarrow> RiskRewardRow" where
  "riskRewardRow t =
     (let entry = parseFloat (text_or_0 (entryPrice t));
          exit = parseFloat (text_or_0 (exitPrice t));
          stop = parseFloat (text_or_0 (stopLoss t));
          p = parseFloat (text_or_0 (profitLoss t));
          risk = js_abs (js_sub entry stop);
          reward = js_abs (js_sub exit entry);
          riskRewardRatio = (if js_gt risk (Fin 0) then js_div reward risk else Fin 0)
      in \<lparr>rr_risk = risk,
          rr_reward = reward,
          rr_ratio = riskRewardRatio,
          rr_pnl = p,
          rr_stockName = stockName t,
          rr_tradeDate = tradeDate t,
          rr_isWin = js_gt p (Fin 0)\<rparr>)"

definition riskRewardData :: "Trade list \<Rightarrow> Strategy list \<Rightarrow> RiskRewardRow list" where
  "riskRewardData trades strategies =
     map riskRewardRow (filter has_prices (getActiveStrategyTrades trades strategies))"

definition avgRiskReward :: "RiskRewardRow list \<Rightarrow> number" where
  "avgRiskReward rows =
     (if length rows > 0
      then js_div (foldl (\<lambda>sum r. js_add sum (rr_ratio r)) (Fin 0) rows) (Fin (real (length rows)))
      else Fin 0)"


section \<open>Calendar dates\<close>

text \<open>
  The \<open>Date\<close> operations the charts use, on the number of a day counted from
  1970-01-01. A date text is read in the ISO form \<open>YYYY-MM-DD\<close>, the form of the
  journal's date field; any other text counts as an invalid date, although an engine
  may read more forms. As V8 does, a day from 1 to 31 is accepted in every month and a
  day past the end of the month runs into the next one.
\<close>

definition days_from_civil :: "int \<Rightarrow> int \<Rightarrow> int \<Rightarrow> int" where
  "days_from_civil y m d =
     (let y' = (if m \<le> 2 then y - 1 else y);
          era = y' div 400;
          yoe = y' - era * 400;
          mp = (m + 9) mod 12;
          doy = (153 * mp + 2) div 5 + d - 1;
          doe = yoe * 365 + yoe div 4 - yoe div 100 + doy
      in era * 146097 + doe - 719468)"

definition civil_from_days :: "int \<Rightarrow> int \<times> int \<times> int" where
  "civil_from_days z =
     (let z' = z + 719468;
          era = z' div 146097;
          doe = z' - era * 146097;
          yoe = (doe - doe div 1460 + doe div 36524 - doe div 146096) div 365;
          doy = doe - (365 * yoe + yoe div 4 - yoe div 100);
          mp = (5 * doy + 2) div 153;
          d = doy - (153 * mp + 2) div 5 + 1;
          m = (if mp < 10 then mp + 3 else mp - 9);
          y = yoe + era * 400 + (if m \<le> 2 then 1 else 0)
      in (y, m, d))"

definition parse_iso_date :: "string \<Rightarrow> (int \<times> int \<times> int) option" where
  "parse_iso_date s =
     (if length s = 10 \<and> s ! 4 = CHR ''-'' \<and> s ! 7 = CHR ''-''
         \<and> list_all is_digit (take 4 s) \<and> list_all is_digit (take 2 (drop 5 s))
         \<and> list_all is_digit (drop 8 s)
      then
        let y = int (digits_val (take 4 s));
            m = int (digits_val (take 2 (drop 5 s)));
            d = int (digits_val (drop 8 s))
        in if 1 \<le> m \<and> m \<le> 12 \<and> 1 \<le> d \<and> d \<le> 31 then Some (y, m, d) else None
      else None)"

text \<open>\<open>getDay()\<close>: 0 is Sunday; 1970-01-01 was a Thursday.\<close>

definition getDay :: "int \<Rightarrow> int" where
  "getDay day = (day + 4) mod 7"

text \<open>\<open>new Date(text).getTime()\<close> for a date-only text: UTC midnight, or NaN.\<close>

definition date_time :: "string \<Rightarrow> number" where
  "date_time s =
     (case parse_iso_date s of
        None \<Rightarrow> NaN
      | Some (y, m, d) \<Rightarrow> Fin (real_of_int (days_from_civil y m d * 86400000)))"

text \<open>\<open>xs.slice(-n)\<close>: the last \<open>n\<close> elements.\<close>

definition slice_last :: "nat \<Rightarrow> 'a list \<Rightarrow> 'a list" where
  "slice_last n xs = drop (length xs - n) xs"

text \<open>A reduction whose callback may throw.\<close>

fun foldE :: "('b \<Rightarrow> 'a \<Rightarrow> error + 'b) \<Rightarrow> 'b \<Rightarrow> 'a list \<Rightarrow> error + 'b" where
  "foldE f acc [] = Inr acc"
| "foldE f acc (x # xs) = (case f acc x of Inl e \<Rightarrow> Inl e | Inr acc' \<Rightarrow> foldE f acc' xs)"

section \<open>The weekly trade frequency chart\<close>

text \<open>
  A week's row. \<open>week\<close> is the label of the week, the month and the day of its Sunday
  (\<open>toLocaleDateString\<close> with a short month and a numeric day, as in \<open>Mar 3\<close>): the label
  has no year.
\<close>

record WeekRow =
  week :: "int \<times> int"
  wk_trades :: nat
  totalVolume :: number
  avgPnL :: number
  pnlSum :: number

text \<open>
  The start of the week of a local day, and the key of the week's bucket:
  \<open>toISOString\<close> gives the UTC date of the local midnight of that Sunday, for a zone
  \<open>tz\<close> minutes east of UTC (taken as constant over the dates at hand).
\<close>

definition weekStart :: "int \<Rightarrow> int" where
  "weekStart day = day - getDay day"

definition weekKey :: "int \<Rightarrow> int \<Rightarrow> int \<times> int \<times> int" where
  "weekKey tz sunday = civil_from_days ((sunday * 1440 - tz) div 1440)"

definition weekLabel :: "int \<Rightarrow> int \<times> int" where
  "weekLabel sunday = (case civil_from_days sunday of (y, m, d) \<Rightarrow> (m, d))"

text \<open>
  The statements that add a trade to its week: \<open>trades += 1; totalVolume += volume;
  pnlSum += pnl; avgPnL = pnlSum / trades\<close>.
\<close>

definition addToWeek :: "number \<Rightarrow> number \<Rightarrow> WeekRow \<Rightarrow> WeekRow" where
  "addToWeek volume p w =
     \<lparr>week = week w,
      wk_trades = wk_trades w + 1,
      totalVolume = js_add (totalVolume w) volume,
      avgPnL = js_div (js_add (pnlSum w) p) (Fin (real (wk_trades w + 1))),
      pnlSum = js_add (pnlSum w) p\<rparr>"

text \<open>
  An invalid trade date makes \<open>toISOString\<close> throw a RangeError.
\<close>

definition weeklyStep ::
  "int \<Rightarrow> ((int \<times> int \<times> int) \<times> WeekRow) list \<Rightarrow> Trade \<Rightarrow> error + ((int \<times> int \<times> int) \<times> WeekRow) list" where
  "weeklyStep tz acc trade =
     (case parse_iso_date (tradeDate trade) of
        None \<Rightarrow> Inl RangeError
      | Some (y, m, d) \<Rightarrow>
          let sunday = weekStart (days_from_civil y m d);
              p = parseFloat (text_or_0 (profitLoss trade));
              volume = js_mul (parseFloat (text_or_0 (entryPrice trade)))
                              (Fin (real_of_int (quantity trade)))
          in Inr (upsert (weekKey tz sunday)
                    \<lparr>week = weekLabel sunday, wk_trades = 0, totalVolume = Fin 0,
                     avgPnL = Fin 0, pnlSum = Fin 0\<rparr>
                    (addToWeek volume p)
                    acc))"

definition weeklyData ::
  "int \<Rightarrow> Trade list \<Rightarrow> Strategy list \<Rightarrow> error + ((int \<times> int \<times> int) \<times> WeekRow) list" where
  "weeklyData tz trades strategies =
     foldE (weeklyStep tz) [] (getActiveStrategyTrades trades strategies)"

text \<open>
  The buckets are sorted by \<open>new Date(a.week).getTime()\<close>. The label is not an ISO
  text, so how it is read is left to the engine: the reading is the parameter
  \<open>labelTime\<close> of the chart. \<open>label_time\<close> is the reading of V8 and SpiderMonkey, which
  take a month and a day without a year as that day of the year 2001 (local time; the
  offset is the same for both arguments of the comparator and is left out).
\<close>

definition label_time :: "int \<times> int \<Rightarrow> number" where
  "label_time l = (case l of (m, d) \<Rightarrow> Fin (real_of_int (days_from_civil 2001 m d * 86400000)))"

definition TradeFrequencyChart ::
  "(int \<times> int \<Rightarrow> number) \<Rightarrow> int \<Rightarrow> Trade list \<Rightarrow> Strategy list \<Rightarrow> error + WeekRow list" where
  "TradeFrequencyChart labelTime tz trades strategies =
     (case weeklyData tz trades strategies of
        Inl e \<Rightarrow> Inl e
      | Inr acc \<Rightarrow>
          Inr (slice_last 12
                 (js_sort (\<lambda>a b. js_sub (labelTime (week a)) (labelTime (week b)))
                    (map snd acc))))"

section \<open>The psychology mood tracker\<close>

definition EMOTION_SCORES :: "(string \<times> real) list" where
  "EMOTION_SCORES =
     [(''Confident'', 5), (''Excited'', 4), (''Disciplined'', 4), (''Neutral'', 3),
      (''Anxious'', 2), (''Fearful'', 1), (''Greedy'', 1)]"

text \<open>
  \<open>EMOTION_SCORES\<close> is an object literal, so a lookup that finds no property of its own
  goes on to \<open>Object.prototype\<close>. These are the names that every object inherits; the
  value read for one of them is a function (for \<open>__proto__\<close>, the prototype object).
\<close>

definition Object_prototype_names :: "string list" where
  "Object_prototype_names =
     [''constructor'', ''__defineGetter__'', ''__defineSetter__'', ''hasOwnProperty'',
      ''__lookupGetter__'', ''__lookupSetter__'', ''isPrototypeOf'', ''propertyIsEnumerable'',
      ''toString'', ''valueOf'', ''__proto__'', ''toLocaleString'']"

text \<open>What a lookup in the table gives: a number, or an inherited function or object.\<close>

datatype score = Score number | Inherited

text \<open>
  \<open>EMOTION_SCORES[trade.emotion || "Neutral"] || 3\<close>. A number of the table is truthy
  when it is not 0; an inherited value is truthy.
\<close>

definition emotionScore :: "string option \<Rightarrow> score" where
  "emotionScore e =
     (let label = (case e of None \<Rightarrow> ''Neutral'' | Some s \<Rightarrow> if s = [] then ''Neutral'' else s)
      in case map_of EMOTION_SCORES label of
           Some n \<Rightarrow> if n \<noteq> 0 then Score (Fin n) else Score (Fin 3)
         | None \<Rightarrow> if label \<in> set Object_prototype_names then Inherited else Score (Fin 3))"

text \<open>
  \<open>sum + score\<close>: the sum of two numbers; with a function or an object, and from then
  on, the concatenation of their texts, which is not the text of a number.
\<close>

datatype mood_sum = Sum number | Concatenation

fun add_score :: "mood_sum \<Rightarrow> score \<Rightarrow> mood_sum" where
  "add_score (Sum a) (Score b) = Sum (js_add a b)"
| "add_score _ _ = Concatenation"

record MoodDay =
  md_date :: string
  emotions :: "score list"
  pnls :: "number list"
  md_trades :: nat

text \<open>
  \<open>if (!acc[date]) acc[date] = {...}; acc[date].emotions.push(...)\<close>: for a date text
  that is a name of \<open>Object.prototype\<close> the inherited value is truthy and has no
  \<open>emotions\<close>, and \<open>push\<close> throws a TypeError. \<open>addToDay\<close> is the two pushes and the
  increment of the count. The days are listed in the order in which they were first
  seen, as \<open>Object.values\<close> lists keys that are not array indices.
\<close>

definition addToDay :: "score \<Rightarrow> number \<Rightarrow> MoodDay \<Rightarrow> MoodDay" where
  "addToDay sc p day =
     \<lparr>md_date = md_date day,
      emotions = emotions day @ [sc],
      pnls = pnls day @ [p],
      md_trades = md_trades day + 1\<rparr>"

definition dailyMoodStep :: "(string \<times> MoodDay) list \<Rightarrow> Trade \<Rightarrow> error + (string \<times> MoodDay) list" where
  "dailyMoodStep acc trade =
     (let date = tradeDate trade;
          sc = emotionScore (emotion trade);
          p = parseFloat (text_or_0 (profitLoss trade))
      in if date \<in> set Object_prototype_names then Inl TypeError
         else Inr (upsert date
                     \<lparr>md_date = date, emotions = [], pnls = [], md_trades = 0\<rparr>
                     (addToDay sc p)
                     acc))"

definition dailyMoodData :: "Trade list \<Rightarrow> Strategy list \<Rightarrow> error + (string \<times> MoodDay) list" where
  "dailyMoodData trades strategies =
     foldE dailyMoodStep [] (getActiveStrategyTrades trades strategies)"

definition getMoodLabel :: "number \<Rightarrow> string" where
  "getMoodLabel sc =
     (if js_ge sc (Fin 4.5) then ''Very Positive''
      else if js_ge sc (Fin 3.5) then ''Positive''
      else if js_ge sc (Fin 2.5) then ''Neutral''
      else if js_ge sc (Fin 1.5) then ''Negative''
      else ''Very Negative'')"

text \<open>A day's row; the display text of the date is left out.\<close>

record MoodRow =
  fullDate :: string
  moodScore :: number
  mood_pnl :: number
  mood_trades :: nat
  moodLabel :: string

definition avgMood :: "score list \<Rightarrow> number" where
  "avgMood scores =
     (case foldl add_score (Sum (Fin 0)) scores of
        Sum s \<Rightarrow> js_div s (Fin (real (length scores)))
      | Concatenation \<Rightarrow> NaN)"

definition moodRow :: "MoodDay \<Rightarrow> MoodRow" where
  "moodRow day =
     \<lparr>fullDate = md_date day,
      moodScore = avgMood (emotions day),
      mood_pnl = foldl js_add (Fin 0) (pnls day),
      mood_trades = md_trades day,
      moodLabel = getMoodLabel (avgMood (emotions day))\<rparr>"

definition PsychologyMoodTracker :: "Trade list \<Rightarrow> Strategy list \<Rightarrow> error + MoodRow list" where
  "PsychologyMoodTracker trades strategies =
     (case dailyMoodData trades strategies of
        Inl e \<Rightarrow> Inl e
      | Inr acc \<Rightarrow>
          Inr (slice_last 30
                 (js_sort (\<lambda>a b. js_sub (date_time (fullDate a)) (date_time (fullDate b)))
                    (map moodRow (map snd acc)))))"

section \<open>Notions of the specification and example data\<close>

text \<open>
  The envelope in the words of the spec, \<open>{ checklist: AdherenceMap, userNotes: string }\<close>
  with an adherence map a mapping from item ids to booleans: an object whose \<open>checklist\<close>
  member is an object with boolean values only and whose \<open>userNotes\<close> member is a string.
  A text parses as the envelope when the parser returns such a value.
\<close>

fun is_boolean :: "json \<Rightarrow> bool" where
  "is_boolean (JBool _) = True"
| "is_boolean _ = False"

fun is_string :: "json \<Rightarrow> bool" where
  "is_string (JStr _) = True"
| "is_string _ = False"

fun is_adherence_map :: "json \<Rightarrow> bool" where
  "is_adherence_map (JObj kvs) = list_all (\<lambda>kv. is_boolean (snd kv)) kvs"
| "is_adherence_map _ = False"

definition spec_envelope :: "json \<Rightarrow> bool" where
  "spec_envelope v =
     (case v of
        JObj kvs \<Rightarrow>
          (case map_of kvs ''checklist'' of
             None \<Rightarrow> False
           | Some c \<Rightarrow>
               is_adherence_map c \<and>
               (case map_of kvs ''userNotes'' of None \<Rightarrow> False | Some u \<Rightarrow> is_string u))
      | _ \<Rightarrow> False)"

definition parses_as_envelope :: "(string \<Rightarrow> json option) \<Rightarrow> string \<Rightarrow> bool" where
  "parses_as_envelope JSON_parse s =
     (case JSON_parse s of None \<Rightarrow> False | Some v \<Rightarrow> spec_envelope v)"

text \<open>
  A notes text of the wrong shape: valid JSON, an object whose \<open>checklist\<close> member is the
  string \<open>ab\<close> and that has no \<open>userNotes\<close>; and the parser on that text.
\<close>

definition wrong_shape_notes :: string where
  "wrong_shape_notes = ''{\"checklist\":\"ab\"}''"

definition wrong_shape_parse :: "string \<Rightarrow> json option" where
  "wrong_shape_parse s =
     (if s = wrong_shape_notes then Some (JObj [(''checklist'', JStr ''ab'')]) else None)"

text \<open>
  A parser for the examples: it knows two notes texts, an envelope in which item \<open>x\<close> was
  followed and one in which it was not, and rejects every other text as \<open>JSON.parse\<close>
  rejects a text that is not JSON.
\<close>

definition notes_followed :: string where
  "notes_followed = ''{\"checklist\":{\"x\":true},\"userNotes\":\"ok\"}''"

definition notes_not_followed :: string where
  "notes_not_followed = ''{\"checklist\":{\"x\":false},\"userNotes\":\"\"}''"

definition example_parse :: "string \<Rightarrow> json option" where
  "example_parse s =
     (if s = notes_followed
      then Some (JObj [(''checklist'', JObj [(''x'', JBool True)]), (''userNotes'', JStr ''ok'')])
      else if s = notes_not_followed
      then Some (JObj [(''checklist'', JObj [(''x'', JBool False)]), (''userNotes'', JStr [])])
      else None)"

text \<open>The five bands, in the order of the rank table.\<close>

definition bands :: "string list" where
  "bands = [''Excellent'', ''Good'', ''Fair'', ''Poor'', ''Very Poor'']"






text \<open>
  Example data: one checklist item \<open>x\<close>; a trade with entry 100, stop 95 and exit 110,
  given its profit/loss and its notes; two trades that followed \<open>x\<close> with profit/loss
  100 and 200, and two that did not with -50 and 10.
\<close>

definition example_item :: ChecklistItem where
  "example_item = \<lparr>item_id = ''x'', item_name = ''X'', category = ''pre-trade'', description = None\<rparr>"

text \<open>An item that no trade of the example has in its map.\<close>

definition unused_item :: ChecklistItem where
  "unused_item = \<lparr>item_id = ''z'', item_name = ''Z'', category = ''post-trade'', description = None\<rparr>"

definition example_trade :: "string \<Rightarrow> string option \<Rightarrow> Trade" where
  "example_trade pl nt =
     \<lparr>strategy = None, stockName = ''ACME'', tradeDate = ''2024-03-04'',
      entryPrice = Some ''100'', exitPrice = Some ''110'', stopLoss = Some ''95'',
      quantity = 10, profitLoss = Some pl, emotion = None, tradeNotes = nt\<rparr>"

definition example_trades :: "Trade list" where
  "example_trades =
     [example_trade ''100'' (Some notes_followed), example_trade ''200'' (Some notes_followed),
      example_trade ''-50'' (Some notes_not_followed), example_trade ''10'' (Some notes_not_followed)]"

text \<open>The trades of the example with their checklist data, as the chart computes them.\<close>

definition example_data :: "TradeData list" where
  "example_data =
     (case tradesWithChecklist (useChecklist example_parse [example_item]) example_trades [] of
        Inl _ \<Rightarrow> []
      | Inr tws \<Rightarrow> tws)"

text \<open>
  Trades of two kinds: with the one strategy, which is active, a trade that followed \<open>x\<close>
  with profit/loss 200 and one that did not with 0; and with no strategy a trade that
  followed \<open>x\<close> with profit/loss 1000.
\<close>

definition one_strategy :: "Strategy list" where
  "one_strategy = [\<lparr>strategy_id = ''s'', status = ''active''\<rparr>]"

definition mixed_trades :: "Trade list" where
  "mixed_trades =
     [(example_trade ''200'' (Some notes_followed))\<lparr>strategy := Some ''s''\<rparr>,
      example_trade ''1000'' (Some notes_followed),
      (example_trade ''0'' (Some notes_not_followed))\<lparr>strategy := Some ''s''\<rparr>]"


text \<open>The example trade on a given date, and with a given emotion label.\<close>

definition trade_on :: "string \<Rightarrow> Trade" where
  "trade_on date = (example_trade ''100'' None)\<lparr>tradeDate := date\<rparr>"

definition trade_feeling :: "string option \<Rightarrow> Trade" where
  "trade_feeling e = (example_trade ''100'' None)\<lparr>emotion := e\<rparr>"

text \<open>
  Two trades on Sundays five years apart whose weeks have the same label: profit/loss 2
  on 2024-03-03, listed first, and profit/loss 1 on 2019-03-03.
\<close>

definition same_label_trades :: "Trade list" where
  "same_label_trades =
     [(example_trade ''2'' None)\<lparr>tradeDate := ''2024-03-03''\<rparr>,
      (example_trade ''1'' None)\<lparr>tradeDate := ''2019-03-03''\<rparr>]"

text \<open>Thirteen Sundays in a row, from 2023-11-05 to 2024-01-28.\<close>

definition thirteen_sundays :: "string list" where
  "thirteen_sundays =
     [''2023-11-05'', ''2023-11-12'', ''2023-11-19'', ''2023-11-26'', ''2023-12-03'',
      ''2023-12-10'', ''2023-12-17'', ''2023-12-24'', ''2023-12-31'', ''2024-01-07'',
      ''2024-01-14'', ''2024-01-21'', ''2024-01-28'']"

text \<open>
  The bucket of a trade date in a zone: the key and the label of its week, when the
  date is valid.
\<close>

definition week_of_ymd :: "int \<Rightarrow> int \<times> int \<times> int \<Rightarrow> (int \<times> int \<times> int) \<times> (int \<times> int)" where
  "week_of_ymd tz ymd =
     (weekKey tz (weekStart (days_from_civil (fst ymd) (fst (snd ymd)) (snd (snd ymd)))),
      weekLabel (weekStart (days_from_civil (fst ymd) (fst (snd ymd)) (snd (snd ymd)))))"

definition week_of :: "int \<Rightarrow> string \<Rightarrow> ((int \<times> int \<times> int) \<times> (int \<times> int)) option" where
  "week_of tz date = map_option (week_of_ymd tz) (parse_iso_date date)"

text \<open>The day of the year 2001 that a label is read as.\<close>

definition label_day :: "int \<times> int \<Rightarrow> int" where
  "label_day l = (case l of (m, d) \<Rightarrow> days_from_civil 2001 m d)"

section \<open>Properties of the adherence scorer\<close>

lemma score_of_values:
  "Object_values c = Inr items \<Longrightarrow>
   calculateAdherenceScore c =
     Inr (Fin (if items = [] then 0
               else real (length (filter Boolean items)) / real (length items) * 100))"
  by (simp add: calculateAdherenceScore_def)

lemma ratio_bounds:
  fixes items :: "'a list"
  assumes "items \<noteq> []"
  shows "0 \<le> real (length (filter P items)) / real (length items) * 100"
    and "real (length (filter P items)) / real (length items) * 100 \<le> 100"
proof -
  have pos: "0 < real (length items)" using assms by simp
  have le: "real (length (filter P items)) \<le> real (length items)"
    by simp
  show "0 \<le> real (length (filter P items)) / real (length items) * 100"
    by simp
  from pos le have "real (length (filter P items)) * 100 \<le> 100 * real (length items)"
    by simp
  with pos show "real (length (filter P items)) / real (length items) * 100 \<le> 100"
    by (simp add: pos_divide_le_eq)
qed

lemma Object_values_adherenceMap:
  "Object_values (adherenceMap m) = Inr (map (\<lambda>(k, b). JBool b) m)"
  by (simp add: adherenceMap_def case_prod_unfold comp_def)

text \<open>
  C1. For every checklist-adherence map, the adherence score is a finite number between
  0 and 100, and the score of the empty map is exactly 0.
\<close>

theorem C1_score_in_range:
  "(\<exists>r. calculateAdherenceScore (adherenceMap m) = Inr (Fin r) \<and> 0 \<le> r \<and> r \<le> 100)
   \<and> calculateAdherenceScore (adherenceMap []) = Inr (Fin 0)"
proof
  let ?items = "map (\<lambda>(k, b). JBool b) m"
  have s: "calculateAdherenceScore (adherenceMap m) =
      Inr (Fin (if ?items = [] then 0
                else real (length (filter Boolean ?items)) / real (length ?items) * 100))"
    by (rule score_of_values) (rule Object_values_adherenceMap)
  show "\<exists>r. calculateAdherenceScore (adherenceMap m) = Inr (Fin r) \<and> 0 \<le> r \<and> r \<le> 100"
  proof (cases "?items = []")
    case True
    with s show ?thesis by simp
  next
    case False
    from ratio_bounds [OF False, of Boolean] s False show ?thesis by auto
  qed
next
  show "calculateAdherenceScore (adherenceMap []) = Inr (Fin 0)"
    by (simp add: calculateAdherenceScore_def adherenceMap_def)
qed

text \<open>
  C2. The band of a score: Excellent from 90, Good from 75 below 90, Fair from 50 below
  75, Poor from 25 below 50, Very Poor below 25 (and for NaN, which no comparison
  accepts). Each of 90, 75, 50 and 25 falls in the higher band, and the score of the
  empty adherence map, 0, is Very Poor.
\<close>

theorem C2_adherence_level_bands:
  "(getAdherenceLevel (Fin r) = ''Excellent'') = (90 \<le> r)
   \<and> (getAdherenceLevel (Fin r) = ''Good'') = (75 \<le> r \<and> r < 90)
   \<and> (getAdherenceLevel (Fin r) = ''Fair'') = (50 \<le> r \<and> r < 75)
   \<and> (getAdherenceLevel (Fin r) = ''Poor'') = (25 \<le> r \<and> r < 50)
   \<and> (getAdherenceLevel (Fin r) = ''Very Poor'') = (r < 25)
   \<and> getAdherenceLevel NaN = ''Very Poor''
   \<and> getAdherenceLevel PInf = ''Excellent''
   \<and> getAdherenceLevel NInf = ''Very Poor''
   \<and> getAdherenceLevel (Fin 90) = ''Excellent''
   \<and> getAdherenceLevel (Fin 75) = ''Good''
   \<and> getAdherenceLevel (Fin 50) = ''Fair''
   \<and> getAdherenceLevel (Fin 25) = ''Poor''
   \<and> calculateAdherenceScore (adherenceMap []) = Inr (Fin 0)
   \<and> getAdherenceLevel (Fin 0) = ''Very Poor''"
  by (simp add: getAdherenceLevel_def calculateAdherenceScore_def adherenceMap_def)

section \<open>Properties of the notes parser and of the hook\<close>

lemma adherence_map_truthy: "is_adherence_map c \<Longrightarrow> Boolean c"
  by (cases c) simp_all

lemma string_or_empty: "is_string u \<Longrightarrow> or_else (Some u) (JStr []) = u"
  by (cases u) (simp_all add: or_else_def)

lemma envelope_members:
  assumes "spec_envelope v"
  obtains kvs c u where "v = JObj kvs" and "map_of kvs ''checklist'' = Some c"
    and "is_adherence_map c" and "map_of kvs ''userNotes'' = Some u" and "is_string u"
  using assms that
  by (cases v) (auto simp: spec_envelope_def split: option.splits)

text \<open>
  C3. \<open>parseTradeNotes\<close> on every notes text. What the function tests is that the text
  parses to an object that has a \<open>checklist\<close> key. When it does (the text is not empty:
  the empty text is not parsed at all), the result is the \<open>checklist\<close> member and the
  \<open>userNotes\<close> member of that object, whatever their types, \<open>{}\<close> and the empty string
  standing in for a member that is missing or falsy; for an envelope of the spec these
  are its adherence map and its notes. When the parser throws, or returns something that
  is not an object with a \<open>checklist\<close> key, the whole text comes back as the user notes
  and the adherence map that the charts take from the result, \<open>parsed.checklist || {}\<close>,
  is empty. The function has no exceptional result: the parser's exception is caught.
\<close>

theorem C3_parseTradeNotes:
  "parseTradeNotes JSON_parse None = \<lparr>checklist = None, userNotes = JStr []\<rparr>
   \<and> parseTradeNotes JSON_parse (Some []) = \<lparr>checklist = None, userNotes = JStr []\<rparr>
   \<and> (s \<noteq> [] \<longrightarrow> JSON_parse s = Some (JObj kvs) \<longrightarrow> ''checklist'' \<in> fst ` set kvs \<longrightarrow>
        parseTradeNotes JSON_parse (Some s) =
          \<lparr>checklist = Some (or_else (map_of kvs ''checklist'') (JObj [])),
           userNotes = or_else (map_of kvs ''userNotes'') (JStr [])\<rparr>)
   \<and> (s \<noteq> [] \<longrightarrow> JSON_parse s = Some v \<longrightarrow> spec_envelope v \<longrightarrow>
        checklist (parseTradeNotes JSON_parse (Some s)) = json_member v ''checklist''
        \<and> Some (userNotes (parseTradeNotes JSON_parse (Some s))) = json_member v ''userNotes'')
   \<and> (s \<noteq> [] \<longrightarrow> JSON_parse s = Some (JObj kvs) \<longrightarrow>
        map_of kvs ''checklist'' = Some (adherenceMap m) \<longrightarrow>
        map_of kvs ''userNotes'' = Some (JStr u) \<longrightarrow>
        parseTradeNotes JSON_parse (Some s) =
          \<lparr>checklist = Some (adherenceMap m), userNotes = JStr u\<rparr>)
   \<and> ((\<forall>kvs. JSON_parse s = Some (JObj kvs) \<longrightarrow> ''checklist'' \<notin> fst ` set kvs) \<longrightarrow>
        parseTradeNotes JSON_parse (Some s) = \<lparr>checklist = None, userNotes = JStr s\<rparr>
        \<and> or_else (checklist (parseTradeNotes JSON_parse (Some s))) (JObj []) = JObj [])"
proof (intro conjI impI)
  show "parseTradeNotes JSON_parse None = \<lparr>checklist = None, userNotes = JStr []\<rparr>"
    by (simp add: parseTradeNotes_def)
  show "parseTradeNotes JSON_parse (Some []) = \<lparr>checklist = None, userNotes = JStr []\<rparr>"
    by (simp add: parseTradeNotes_def)
next
  assume "s \<noteq> []" and p: "JSON_parse s = Some (JObj kvs)" and k: "''checklist'' \<in> fst ` set kvs"
  then show "parseTradeNotes JSON_parse (Some s) =
          \<lparr>checklist = Some (or_else (map_of kvs ''checklist'') (JObj [])),
           userNotes = or_else (map_of kvs ''userNotes'') (JStr [])\<rparr>"
    by (simp add: parseTradeNotes_def has_checklist_def)
next
  assume ne: "s \<noteq> []" and p: "JSON_parse s = Some v" and e: "spec_envelope v"
  from e obtain kvs' c u' where v: "v = JObj kvs'" and c: "map_of kvs' ''checklist'' = Some c"
    and am: "is_adherence_map c" and u: "map_of kvs' ''userNotes'' = Some u'" and st: "is_string u'"
    by (rule envelope_members)
  from c have k: "''checklist'' \<in> fst ` set kvs'"
    by (metis domI dom_map_of_conv_image_fst)
  from am have "or_else (Some c) (JObj []) = c"
    by (simp add: or_else_def adherence_map_truthy)
  with ne p v c u k string_or_empty [OF st]
  have r: "parseTradeNotes JSON_parse (Some s) = \<lparr>checklist = Some c, userNotes = u'\<rparr>"
    by (simp add: parseTradeNotes_def has_checklist_def)
  from r v c show "checklist (parseTradeNotes JSON_parse (Some s)) = json_member v ''checklist''"
    by simp
  from r v u show "Some (userNotes (parseTradeNotes JSON_parse (Some s))) = json_member v ''userNotes''"
    by simp
next
  assume "s \<noteq> []" and p: "JSON_parse s = Some (JObj kvs)"
    and c: "map_of kvs ''checklist'' = Some (adherenceMap m)"
    and u: "map_of kvs ''userNotes'' = Some (JStr u)"
  from c have k: "''checklist'' \<in> fst ` set kvs"
    by (metis domI dom_map_of_conv_image_fst)
  have "or_else (Some (JStr u)) (JStr []) = JStr u"
    by (simp add: or_else_def)
  with \<open>s \<noteq> []\<close> p c u k
  show "parseTradeNotes JSON_parse (Some s) =
          \<lparr>checklist = Some (adherenceMap m), userNotes = JStr u\<rparr>"
    by (simp add: parseTradeNotes_def has_checklist_def or_else_def adherenceMap_def)
next
  assume e: "\<forall>kvs. JSON_parse s = Some (JObj kvs) \<longrightarrow> ''checklist'' \<notin> fst ` set kvs"
  then show plain: "parseTradeNotes JSON_parse (Some s) = \<lparr>checklist = None, userNotes = JStr s\<rparr>"
    by (auto simp: parseTradeNotes_def has_checklist_def
             split: option.splits json.splits if_splits)
  then show "or_else (checklist (parseTradeNotes JSON_parse (Some s))) (JObj []) = JObj []"
    by (simp add: or_else_def)
qed

theorem C3_parseTradeNotes_witness:
  "parseTradeNotes example_parse (Some notes_followed) =
     \<lparr>checklist = Some (adherenceMap [(''x'', True)]), userNotes = JStr ''ok''\<rparr>
   \<and> spec_envelope (JObj [(''checklist'', JObj [(''x'', JBool False)]), (''userNotes'', JStr [])])
   \<and> checklist (parseTradeNotes example_parse (Some notes_not_followed)) = Some (JObj [(''x'', JBool False)])
   \<and> userNotes (parseTradeNotes example_parse (Some notes_not_followed)) = JStr []
   \<and> parseTradeNotes wrong_shape_parse (Some wrong_shape_notes) =
     \<lparr>checklist = Some (JStr ''ab''), userNotes = JStr []\<rparr>
   \<and> parseTradeNotes example_parse (Some ''bought the dip'') =
     \<lparr>checklist = None, userNotes = JStr ''bought the dip''\<rparr>
   \<and> or_else (checklist (parseTradeNotes example_parse (Some ''bought the dip''))) (JObj []) = JObj []"
proof -
  have ne: "notes_followed \<noteq> []" "notes_not_followed \<noteq> []" "wrong_shape_notes \<noteq> []"
    by (simp_all add: notes_followed_def notes_not_followed_def wrong_shape_notes_def)
  have p1: "example_parse notes_followed =
      Some (JObj [(''checklist'', JObj [(''x'', JBool True)]), (''userNotes'', JStr ''ok'')])"
    by (simp add: example_parse_def)
  have p2: "example_parse notes_not_followed =
      Some (JObj [(''checklist'', JObj [(''x'', JBool False)]), (''userNotes'', JStr [])])"
    by (simp add: example_parse_def notes_followed_def notes_not_followed_def)
  have e2: "spec_envelope (JObj [(''checklist'', JObj [(''x'', JBool False)]), (''userNotes'', JStr [])])"
    by (simp add: spec_envelope_def)
  have p3: "example_parse ''bought the dip'' = None"
    by (simp add: example_parse_def notes_followed_def notes_not_followed_def)
  have p4: "wrong_shape_parse wrong_shape_notes = Some (JObj [(''checklist'', JStr ''ab'')])"
    by (simp add: wrong_shape_parse_def)
  have m: "map_of [(''checklist'', JObj [(''x'', JBool True)]), (''userNotes'', JStr ''ok'')] ''checklist''
      = Some (adherenceMap [(''x'', True)])"
    by (simp add: adherenceMap_def)
  have u: "map_of [(''checklist'', JObj [(''x'', JBool True)]), (''userNotes'', JStr ''ok'')] ''userNotes''
      = Some (JStr ''ok'')"
    by simp
  note t1 = C3_parseTradeNotes [where JSON_parse = example_parse and s = notes_followed
      and kvs = "[(''checklist'', JObj [(''x'', JBool True)]), (''userNotes'', JStr ''ok'')]"
      and m = "[(''x'', True)]" and u = "''ok''"]
  note t2 = C3_parseTradeNotes [where JSON_parse = example_parse and s = notes_not_followed
      and v = "JObj [(''checklist'', JObj [(''x'', JBool False)]), (''userNotes'', JStr [])]"]
  note t3 = C3_parseTradeNotes [where JSON_parse = example_parse and s = "''bought the dip''"]
  note t4 = C3_parseTradeNotes [where JSON_parse = wrong_shape_parse and s = wrong_shape_notes
      and kvs = "[(''checklist'', JStr ''ab'')]"]
  from t1 ne p1 m u have a: "parseTradeNotes example_parse (Some notes_followed) =
     \<lparr>checklist = Some (adherenceMap [(''x'', True)]), userNotes = JStr ''ok''\<rparr>"
    by blast
  from t2 ne p2 e2 have b: "checklist (parseTradeNotes example_parse (Some notes_not_followed)) = Some (JObj [(''x'', JBool False)])
      \<and> userNotes (parseTradeNotes example_parse (Some notes_not_followed)) = JStr []"
    by (simp add: or_else_def)
  from t3 p3 have c: "parseTradeNotes example_parse (Some ''bought the dip'') =
     \<lparr>checklist = None, userNotes = JStr ''bought the dip''\<rparr>
     \<and> or_else (checklist (parseTradeNotes example_parse (Some ''bought the dip''))) (JObj []) = JObj []"
    by (simp add: or_else_def)
  from t4 ne p4 have d: "parseTradeNotes wrong_shape_parse (Some wrong_shape_notes) =
     \<lparr>checklist = Some (JStr ''ab''), userNotes = JStr []\<rparr>"
    by (simp add: or_else_def)
  from a b c d e2 show ?thesis by blast
qed

text \<open>
  The statement in the words of the spec fails on a text of the wrong shape that has a
  \<open>checklist\<close> key. The text \<open>{"checklist":"ab"}\<close> does not parse as the envelope of the
  spec; yet its \<open>checklist\<close> member comes back as the checklist and the empty string as
  the notes, not the text; the map the charts take from the result is not empty; and a
  trade with these notes is scored 100, Excellent.
\<close>

theorem C3_wrong_shape_counterexample:
  "\<not> parses_as_envelope wrong_shape_parse wrong_shape_notes
   \<and> parseTradeNotes wrong_shape_parse (Some wrong_shape_notes) \<noteq>
       \<lparr>checklist = None, userNotes = JStr wrong_shape_notes\<rparr>
   \<and> userNotes (parseTradeNotes wrong_shape_parse (Some wrong_shape_notes)) \<noteq> JStr wrong_shape_notes
   \<and> or_else (checklist (parseTradeNotes wrong_shape_parse (Some wrong_shape_notes))) (JObj []) \<noteq> JObj []
   \<and> withChecklistData (useChecklist wrong_shape_parse [])
        (example_trade ''0'' (Some wrong_shape_notes))
      = Inr \<lparr>tw_trade = example_trade ''0'' (Some wrong_shape_notes),
             tw_checklist = JStr ''ab'', tw_userNotes = JStr [],
             adherenceScore = Fin 100, adherenceLevel = ''Excellent'',
             pnl = Fin 0, isWin = False\<rparr>"
  by code_simp

text \<open>
  C10. The adherence score depends on the map alone. The function the hook returns is
  the same for every list of item definitions; it counts every entry of the map, in the
  tally of followed items and in the denominator, whatever its key; and the trades with
  their scores are the same after an item definition is deleted or edited.
\<close>

theorem C10_score_ignores_definitions:
  "hook_calculateAdherenceScore (useChecklist JSON_parse items') =
     hook_calculateAdherenceScore (useChecklist JSON_parse items)
   \<and> hook_calculateAdherenceScore (useChecklist JSON_parse items) (adherenceMap m) =
       Inr (Fin (if m = [] then 0
                 else real (length (filter snd m)) / real (length m) * 100))
   \<and> tradesWithChecklist (useChecklist JSON_parse (deleteChecklistItem stored i items)) trades strategies =
       tradesWithChecklist (useChecklist JSON_parse items) trades strategies
   \<and> tradesWithChecklist (useChecklist JSON_parse (updateChecklistItem stored i updates items)) trades strategies =
       tradesWithChecklist (useChecklist JSON_parse items) trades strategies"
proof (intro conjI)
  show "hook_calculateAdherenceScore (useChecklist JSON_parse items') =
     hook_calculateAdherenceScore (useChecklist JSON_parse items)"
    by (simp add: useChecklist_def)
  have f: "filter Boolean (map (\<lambda>(k, b). JBool b) m) = map (\<lambda>(k, b). JBool b) (filter snd m)"
    by (induction m) auto
  have "calculateAdherenceScore (adherenceMap m) =
      Inr (Fin (if map (\<lambda>(k, b). JBool b) m = [] then 0
                else real (length (filter Boolean (map (\<lambda>(k, b). JBool b) m)))
                     / real (length (map (\<lambda>(k, b). JBool b) m)) * 100))"
    by (rule score_of_values) (rule Object_values_adherenceMap)
  then show "hook_calculateAdherenceScore (useChecklist JSON_parse items) (adherenceMap m) =
       Inr (Fin (if m = [] then 0
                 else real (length (filter snd m)) / real (length m) * 100))"
    by (simp add: useChecklist_def f)
  have w: "\<And>xs ys. withChecklistData (useChecklist JSON_parse xs) = withChecklistData (useChecklist JSON_parse ys)"
    by (rule ext) (simp add: withChecklistData_def useChecklist_def Let_def cong: sum.case_cong option.case_cong if_cong)
  show "tradesWithChecklist (useChecklist JSON_parse (deleteChecklistItem stored i items)) trades strategies =
       tradesWithChecklist (useChecklist JSON_parse items) trades strategies"
    by (simp add: tradesWithChecklist_def w [of "deleteChecklistItem stored i items" items])
  show "tradesWithChecklist (useChecklist JSON_parse (updateChecklistItem stored i updates items)) trades strategies =
       tradesWithChecklist (useChecklist JSON_parse items) trades strategies"
    by (simp add: tradesWithChecklist_def w [of "updateChecklistItem stored i updates items" items])
qed

section \<open>Sorting with a comparator\<close>

lemma insert_by_key:
  "\<forall>b\<in>set ys. not_after (cmp x b) = (k x \<le> k b) \<Longrightarrow> insert_by cmp x ys = insort_key k x ys"
  by (induction ys) auto

lemma js_sort_key:
  "\<forall>a\<in>set xs. \<forall>b\<in>set xs. not_after (cmp a b) = (k a \<le> k b) \<Longrightarrow>
   js_sort cmp xs = sort_key k xs"
proof (induction xs)
  case Nil
  then show ?case by (simp add: js_sort_def)
next
  case (Cons x xs)
  then have ih: "js_sort cmp xs = sort_key k xs" by simp
  from Cons.prems have "\<forall>b\<in>set (sort_key k xs). not_after (cmp x b) = (k x \<le> k b)"
    by simp
  then have "insert_by cmp x (sort_key k xs) = insort_key k x (sort_key k xs)"
    by (rule insert_by_key)
  with ih show ?case by (simp add: js_sort_def)
qed

lemma not_after_diff:
  "not_after (js_sub (Fin a) (Fin b)) = (a \<le> b)"
  by (auto simp: not_after_def js_sub_def js_gt_def)

lemma not_after_self: "not_after (js_sub x x)"
  by (cases x) (simp_all add: not_after_def js_sub_def js_gt_def)

lemma map_insort_key:
  "map f (insort_key (\<lambda>a. g (f a)) x xs) = insort_key g (f x) (map f xs)"
  by (induction xs) auto

lemma map_sort_key:
  "map f (sort_key (\<lambda>a. g (f a)) xs) = sort_key g (map f xs)"
  by (induction xs) (simp_all add: map_insort_key)

section \<open>Objects used as dictionaries of groups\<close>

lemma keys_upsert_old: "k \<in> fst ` set kvs \<Longrightarrow> map fst (upsert k i f kvs) = map fst kvs"
  by (induction kvs) force+

lemma keys_upsert_new: "k \<notin> fst ` set kvs \<Longrightarrow> map fst (upsert k i f kvs) = map fst kvs @ [k]"
  by (induction kvs) auto

lemma keys_upsert:
  "map fst (upsert k i f kvs) = (if k \<in> fst ` set kvs then map fst kvs else map fst kvs @ [k])"
  by (simp add: keys_upsert_old keys_upsert_new)

lemma upsert_new: "k \<notin> fst ` set acc \<Longrightarrow> upsert k i f acc = acc @ [(k, f i)]"
  by (induction acc) auto

lemma keys_groups_aux:
  "distinct (map fst acc) \<Longrightarrow>
   distinct (map fst (foldl (\<lambda>acc t. upsert (key t) i (f t) acc) acc ts))
   \<and> set (map fst (foldl (\<lambda>acc t. upsert (key t) i (f t) acc) acc ts)) = set (map fst acc) \<union> key ` set ts"
proof (induction ts arbitrary: acc)
  case Nil
  then show ?case by simp
next
  case (Cons t ts)
  have d: "distinct (map fst (upsert (key t) i (f t) acc))"
    using Cons.prems by (auto simp: keys_upsert)
  have s: "set (map fst (upsert (key t) i (f t) acc)) = insert (key t) (set (map fst acc))"
    by (auto simp: keys_upsert)
  from Cons.IH [OF d] s show ?case by auto
qed

section \<open>Properties of the checklist adherence chart\<close>

subsection \<open>The trades with their checklist data\<close>

lemma mapE_set:
  "mapE f xs = Inr ys \<Longrightarrow> set ys = {y. \<exists>x\<in>set xs. f x = Inr y}"
proof (induction xs arbitrary: ys)
  case Nil
  then show ?case by auto
next
  case (Cons x xs)
  then show ?case by (auto split: sum.splits)
qed

lemma mapE_total:
  "(\<And>x. x \<in> set xs \<Longrightarrow> \<exists>y. f x = Inr y) \<Longrightarrow> \<exists>ys. mapE f xs = Inr ys"
proof (induction xs)
  case Nil
  then show ?case by simp
next
  case (Cons x xs)
  then obtain y ys where "f x = Inr y" "mapE f xs = Inr ys" by (meson list.set_intros)
  then show ?case by simp
qed

lemma score_total: "Boolean c \<Longrightarrow> \<exists>sc. calculateAdherenceScore c = Inr sc"
  by (cases c) (simp_all add: calculateAdherenceScore_def)

lemma getAdherenceLevel_bands: "getAdherenceLevel sc \<in> set bands"
  by (simp add: getAdherenceLevel_def bands_def)

lemma withChecklistData_useChecklist:
  "withChecklistData (useChecklist JSON_parse items) t =
     (case (case checklist (parseTradeNotes JSON_parse (tradeNotes t)) of
              None \<Rightarrow> Inr (Fin 0)
            | Some c \<Rightarrow> if Boolean c then calculateAdherenceScore c else Inr (Fin 0)) of
        Inl e \<Rightarrow> Inl e
      | Inr sc \<Rightarrow>
          Inr \<lparr>tw_trade = t,
               tw_checklist = or_else (checklist (parseTradeNotes JSON_parse (tradeNotes t))) (JObj []),
               tw_userNotes = or_else (Some (userNotes (parseTradeNotes JSON_parse (tradeNotes t)))) (JStr []),
               adherenceScore = sc,
               adherenceLevel = getAdherenceLevel sc,
               pnl = parseFloat (text_or_0 (profitLoss t)),
               isWin = js_gt (parseFloat (text_or_0 (profitLoss t))) (Fin 0)\<rparr>)"
  by (simp add: withChecklistData_def useChecklist_def Let_def
      cong: sum.case_cong option.case_cong if_cong)

lemma withChecklistData_total:
  "\<exists>d. withChecklistData (useChecklist JSON_parse items) t = Inr d"
proof -
  let ?parsed = "parseTradeNotes JSON_parse (tradeNotes t)"
  have "\<exists>sc. (case checklist ?parsed of
               None \<Rightarrow> Inr (Fin 0)
             | Some c \<Rightarrow> if Boolean c then calculateAdherenceScore c else Inr (Fin 0)) = Inr sc"
    using score_total by (cases "checklist ?parsed") auto
  then obtain sc where "(case checklist ?parsed of
               None \<Rightarrow> Inr (Fin 0)
             | Some c \<Rightarrow> if Boolean c then calculateAdherenceScore c else Inr (Fin 0)) = Inr sc" ..
  then show ?thesis
    by (simp add: withChecklistData_useChecklist)
qed

lemma withChecklistData_level:
  "withChecklistData (useChecklist JSON_parse items) t = Inr d \<Longrightarrow> adherenceLevel d \<in> set bands"
  by (auto simp: withChecklistData_useChecklist getAdherenceLevel_bands split: sum.splits)


lemma tradesWithChecklist_total:
  "\<exists>tws. tradesWithChecklist (useChecklist JSON_parse items) trades ss = Inr tws"
  unfolding tradesWithChecklist_def by (rule mapE_total) (rule withChecklistData_total)

lemma active_nil: "getActiveStrategyTrades trades [] = trades"
  by (simp add: getActiveStrategyTrades_def)

lemma set_active:
  "set trades' = set trades \<Longrightarrow>
   set (getActiveStrategyTrades trades' ss) = set (getActiveStrategyTrades trades ss)"
  by (auto simp: getActiveStrategyTrades_def)



subsection \<open>The rows by adherence level\<close>

lemma keys_adherenceGroups:
  "distinct (map fst (adherenceGroups tws))"
  "fst ` set (adherenceGroups tws) = adherenceLevel ` set tws"
  using keys_groups_aux [of "[]" adherenceLevel "[]" "\<lambda>t g. g @ [t]" tws]
  by (simp_all add: adherenceGroups_def)

lemma rank_bands: "map getAdherenceSortOrder bands = [1, 2, 3, 4, 5]"
  by (simp add: bands_def getAdherenceSortOrder_def)

lemma inj_rank: "inj_on getAdherenceSortOrder (set bands)"
  by (simp add: bands_def getAdherenceSortOrder_def)

lemma sort_bands:
  assumes d: "distinct ls" and sub: "set ls \<subseteq> set bands"
  shows "sort_key getAdherenceSortOrder ls = filter (\<lambda>l. l \<in> set ls) bands"
proof -
  let ?r = getAdherenceSortOrder
  let ?A = "sort_key ?r ls" and ?B = "filter (\<lambda>l. l \<in> set ls) bands"
  have inj_ls: "inj_on ?r (set ls)" using inj_rank sub by (rule inj_on_subset)
  have sA: "sorted (map ?r ?A)" by simp
  have dA: "distinct (map ?r ?A)" using d inj_ls by (simp add: distinct_map)
  have "sorted (map ?r bands)" by (simp add: rank_bands)
  then have sB: "sorted (map ?r ?B)" by (simp add: sorted_wrt_filter sorted_map)
  have "distinct (map ?r bands)" by (simp add: rank_bands)
  then have dB: "distinct (map ?r ?B)" by (simp add: distinct_map_filter)
  have "set ?B = set ls" using sub by auto
  then have set_eq: "set (map ?r ?A) = set (map ?r ?B)" by simp
  from sA dA sB dB set_eq have m: "map ?r ?A = map ?r ?B"
    by (rule sorted_distinct_set_unique)
  have "inj_on ?r (set ?A \<union> set ?B)" using inj_rank sub
    by (auto intro: inj_on_subset)
  with m show ?thesis by (simp add: inj_on_map_eq_map)
qed

lemma levels_adherenceData:
  "map row_level (adherenceData tws ss) =
     sort_key getAdherenceSortOrder (map fst (adherenceGroups tws))"
proof -
  let ?k = "\<lambda>r. getAdherenceSortOrder (row_level r)"
  let ?rows = "map (levelRow ss) (adherenceGroups tws)"
  have "adherenceData tws ss = sort_key ?k ?rows"
    unfolding adherenceData_def by (rule js_sort_key) (simp add: not_after_diff)
  then have "map row_level (adherenceData tws ss) = sort_key getAdherenceSortOrder (map row_level ?rows)"
    by (simp add: map_sort_key)
  moreover have "row_level \<circ> levelRow ss = fst"
    by (rule ext) (simp add: levelRow_def Let_def)
  ultimately show ?thesis by simp
qed

text \<open>
  In the example the levels are Excellent, Excellent, Very Poor, Very Poor in the order
  of the trades; the rows are Excellent, Very Poor for this order and for its reverse.
\<close>

lemma example_levels:
  "map adherenceLevel example_data = [''Excellent'', ''Excellent'', ''Very Poor'', ''Very Poor'']"
  "map row_level (adherenceData example_data []) = [''Excellent'', ''Very Poor'']"
  "map row_level (adherenceData (rev example_data) []) = [''Excellent'', ''Very Poor'']"
  by code_simp+

text \<open>
  C9. For every list of trades and every permutation of it, the chart computes a row per
  adherence level that occurs, and the levels of the rows are the bands that occur in
  the fixed order Excellent, Good, Fair, Poor, Very Poor, the same for both lists. The
  order comes from the rank table \<open>getAdherenceSortOrder\<close>, by which the rows are sorted.
\<close>

theorem C9_band_order:
  assumes "mset trades' = mset trades"
  shows "\<exists>tws tws'.
     tradesWithChecklist (useChecklist JSON_parse items) trades strategies = Inr tws
   \<and> tradesWithChecklist (useChecklist JSON_parse items) trades' strategies = Inr tws'
   \<and> map row_level (adherenceData tws strategies) = filter (\<lambda>l. l \<in> adherenceLevel ` set tws) bands
   \<and> map row_level (adherenceData tws' strategies) = map row_level (adherenceData tws strategies)"
proof -
  let ?h = "useChecklist JSON_parse items"
  obtain tws where t: "tradesWithChecklist ?h trades strategies = Inr tws"
    using tradesWithChecklist_total by blast
  obtain tws' where t': "tradesWithChecklist ?h trades' strategies = Inr tws'"
    using tradesWithChecklist_total by blast
  have order: "map row_level (adherenceData ws strategies) = filter (\<lambda>l. l \<in> adherenceLevel ` set ws) bands"
    if w: "tradesWithChecklist ?h ts strategies = Inr ws" for ts ws
  proof -
    have "adherenceLevel ` set ws \<subseteq> set bands"
      using mapE_set [OF w [unfolded tradesWithChecklist_def]] withChecklistData_level by auto
    then have "set (map fst (adherenceGroups ws)) \<subseteq> set bands"
      by (simp add: keys_adherenceGroups)
    with keys_adherenceGroups(1) [of ws]
    have "sort_key getAdherenceSortOrder (map fst (adherenceGroups ws)) =
        filter (\<lambda>l. l \<in> set (map fst (adherenceGroups ws))) bands"
      by (rule sort_bands)
    then show ?thesis by (simp add: levels_adherenceData keys_adherenceGroups)
  qed
  from assms have "set trades' = set trades" by (rule mset_eq_setD)
  then have "set (getActiveStrategyTrades trades' strategies) = set (getActiveStrategyTrades trades strategies)"
    by (rule set_active)
  with mapE_set [OF t [unfolded tradesWithChecklist_def]] mapE_set [OF t' [unfolded tradesWithChecklist_def]]
  have "set tws' = set tws" by simp
  with order [OF t] order [OF t'] t t' show ?thesis by simp
qed

theorem C9_band_order_witness:
  "mset (rev example_trades) = mset example_trades
   \<and> (\<exists>tws tws'.
     tradesWithChecklist (useChecklist example_parse [example_item]) example_trades [] = Inr tws
   \<and> tradesWithChecklist (useChecklist example_parse [example_item]) (rev example_trades) [] = Inr tws'
   \<and> map row_level (adherenceData tws []) = filter (\<lambda>l. l \<in> adherenceLevel ` set tws) bands
   \<and> map row_level (adherenceData tws' []) = map row_level (adherenceData tws []))"
  using C9_band_order [of "rev example_trades" example_trades example_parse "[example_item]" "[]"]
  by simp

subsection \<open>The rows by checklist item\<close>




























text \<open>
  With the item of the example among the checklist items there is an item row, and the
  rendering of the chart ends with the ReferenceError; with only an item that no trade
  has in its map there is none, and the chart is drawn.
\<close>

lemma example_render:
  "ChecklistAdherenceChart (useChecklist example_parse [unused_item, example_item]) example_trades [] = Inl ReferenceError"
  "map_sum id snd (ChecklistAdherenceChart (useChecklist example_parse [unused_item]) example_trades [])
     = Inr []"
  by code_simp+

text \<open>
  The chart takes its cohorts from the trades of active strategies. The page takes them
  from all the trades of the time range: there the count of a cohort includes a trade
  without an active strategy, and the total, after the modelled \<open>calculateTotalPnL\<close>,
  leaves it out. For the trades of two kinds the chart has one followed trade and the
  impact 200; the page has two and the impact \<open>200 / 2 - 0 / 1\<close>.
\<close>

lemma page_inactive_cohort:
  "map_sum id (\<lambda>tws. map (\<lambda>r. (impact r, followedTrades r, notFollowedTrades r))
                        (itemAnalysis (useChecklist example_parse [example_item]) tws one_strategy))
     (tradesWithChecklist (useChecklist example_parse [example_item]) mixed_trades one_strategy)
   = Inr [(Fin 200, 1, 1)]"
  "Discipline_topImpact (useChecklist example_parse [example_item]) mixed_trades one_strategy =
     Inr [\<lparr>ti_item = example_item, ti_impact = Fin 100, ti_followedTrades = 2,
            ti_notFollowedTrades = 1\<rparr>]"
  by code_simp+



text \<open>
  C7. The guarded averages. For an empty cohort the win rate and the average profit/loss
  are 0: in a level row, in both cohorts of an item row, and the average risk-reward
  ratio of no rows. The division that the guard skips would be \<open>0 / 0\<close>, which is NaN.
  For every cohort, empty or not, the win rates and the average profit/loss of the
  level rows and item rows are finite numbers.
\<close>

theorem C7_empty_cohort_zero:
  "row_winRate (levelRow strategies (lvl, [])) = Fin 0
   \<and> row_avgPnL (levelRow strategies (lvl, [])) = Fin 0
   \<and> (filter (checked_as True item) tws = [] \<longrightarrow>
        followedPnL (itemRow tws strategies item) = Fin 0
        \<and> followedWinRate (itemRow tws strategies item) = Fin 0)
   \<and> (filter (checked_as False item) tws = [] \<longrightarrow>
        notFollowedPnL (itemRow tws strategies item) = Fin 0
        \<and> notFollowedWinRate (itemRow tws strategies item) = Fin 0)
   \<and> avgRiskReward [] = Fin 0
   \<and> js_div (Fin 0) (Fin 0) = NaN
   \<and> (\<exists>r. row_winRate (levelRow strategies entry) = Fin r)
   \<and> (\<exists>r. row_avgPnL (levelRow strategies entry) = Fin r)
   \<and> (\<exists>r. followedPnL (itemRow tws strategies item) = Fin r)
   \<and> (\<exists>r. notFollowedPnL (itemRow tws strategies item) = Fin r)
   \<and> (\<exists>r. followedWinRate (itemRow tws strategies item) = Fin r)
   \<and> (\<exists>r. notFollowedWinRate (itemRow tws strategies item) = Fin r)"
  by (simp add: levelRow_def itemRow_def avgRiskReward_def calculateTotalPnL_def Let_def)

theorem C7_empty_cohort_zero_witness:
  "filter (checked_as True (example_item\<lparr>item_id := ''y''\<rparr>)) example_data = []
   \<and> followedPnL (itemRow example_data [] (example_item\<lparr>item_id := ''y''\<rparr>)) = Fin 0
   \<and> followedWinRate (itemRow example_data [] (example_item\<lparr>item_id := ''y''\<rparr>)) = Fin 0
   \<and> filter (checked_as False (example_item\<lparr>item_id := ''y''\<rparr>)) example_data = []
   \<and> notFollowedPnL (itemRow example_data [] (example_item\<lparr>item_id := ''y''\<rparr>)) = Fin 0
   \<and> notFollowedWinRate (itemRow example_data [] (example_item\<lparr>item_id := ''y''\<rparr>)) = Fin 0"
proof -
  have e: "filter (checked_as True (example_item\<lparr>item_id := ''y''\<rparr>)) example_data = []"
      "filter (checked_as False (example_item\<lparr>item_id := ''y''\<rparr>)) example_data = []"
    by code_simp+
  with C7_empty_cohort_zero [where strategies = "[]" and item = "example_item\<lparr>item_id := ''y''\<rparr>"
      and tws = example_data]
  show ?thesis by blast
qed

section \<open>Properties of the risk-reward chart\<close>

text \<open>
  C6. For a trade whose entry, exit and stop-loss are present (a text that is not empty)
  and parse to finite numbers \<open>e\<close>, \<open>x\<close> and \<open>s\<close>, the row has risk \<open>|e - s|\<close>, reward
  \<open>|x - e|\<close>, and ratio reward / risk when the risk is positive and 0 when it is 0. The
  rows are those of the active trades that have the three prices: a trade that misses
  one of them, \<open>null\<close> or empty, adds no row. Entry 100, stop 95 and exit 110 give risk
  5, reward 10 and ratio 2; without the stop-loss there is no row.
\<close>

theorem C6_risk_reward:
  "(entryPrice t = Some es \<longrightarrow> exitPrice t = Some xs \<longrightarrow> stopLoss t = Some ss \<longrightarrow>
      es \<noteq> [] \<longrightarrow> xs \<noteq> [] \<longrightarrow> ss \<noteq> [] \<longrightarrow>
      parseFloat es = Fin e \<longrightarrow> parseFloat xs = Fin x \<longrightarrow> parseFloat ss = Fin s \<longrightarrow>
      has_prices t
      \<and> rr_risk (riskRewardRow t) = Fin \<bar>e - s\<bar>
      \<and> rr_reward (riskRewardRow t) = Fin \<bar>x - e\<bar>
      \<and> rr_ratio (riskRewardRow t) = Fin (if \<bar>e - s\<bar> > 0 then \<bar>x - e\<bar> / \<bar>e - s\<bar> else 0))
   \<and> riskRewardData trades strategies =
        map riskRewardRow (filter has_prices (getActiveStrategyTrades trades strategies))
   \<and> (\<not> has_prices t \<longrightarrow>
        riskRewardData (before @ t # after) strategies = riskRewardData (before @ after) strategies)
   \<and> has_prices t = (entryPrice t \<notin> {None, Some []} \<and> exitPrice t \<notin> {None, Some []}
                      \<and> stopLoss t \<notin> {None, Some []})
   \<and> riskRewardData [example_trade ''100'' None] [] =
        [\<lparr>rr_risk = Fin 5, rr_reward = Fin 10, rr_ratio = Fin 2, rr_pnl = Fin 100,
          rr_stockName = ''ACME'', rr_tradeDate = ''2024-03-04'', rr_isWin = True\<rparr>]
   \<and> riskRewardData [(example_trade ''100'' None)\<lparr>stopLoss := None\<rparr>] [] = []"
proof (intro conjI impI)
  assume f: "entryPrice t = Some es" "exitPrice t = Some xs" "stopLoss t = Some ss"
    and ne: "es \<noteq> []" "xs \<noteq> []" "ss \<noteq> []"
    and p: "parseFloat es = Fin e" "parseFloat xs = Fin x" "parseFloat ss = Fin s"
  from f ne show "has_prices t"
    by (simp add: has_prices_def truthy_text_def)
  from f ne have t0: "text_or_0 (entryPrice t) = es" "text_or_0 (exitPrice t) = xs"
      "text_or_0 (stopLoss t) = ss"
    by (simp_all add: text_or_0_def)
  show "rr_risk (riskRewardRow t) = Fin \<bar>e - s\<bar>"
    by (simp add: riskRewardRow_def t0 p js_sub_def Let_def)
  show "rr_reward (riskRewardRow t) = Fin \<bar>x - e\<bar>"
    by (simp add: riskRewardRow_def t0 p js_sub_def Let_def)
  show "rr_ratio (riskRewardRow t) = Fin (if \<bar>e - s\<bar> > 0 then \<bar>x - e\<bar> / \<bar>e - s\<bar> else 0)"
    by (simp add: riskRewardRow_def t0 p js_sub_def js_gt_def Let_def)
next
  show "riskRewardData trades strategies =
        map riskRewardRow (filter has_prices (getActiveStrategyTrades trades strategies))"
    by (simp add: riskRewardData_def)
next
  assume "\<not> has_prices t"
  then show "riskRewardData (before @ t # after) strategies = riskRewardData (before @ after) strategies"
    by (simp add: riskRewardData_def getActiveStrategyTrades_def)
next
  show "has_prices t = (entryPrice t \<notin> {None, Some []} \<and> exitPrice t \<notin> {None, Some []}
                      \<and> stopLoss t \<notin> {None, Some []})"
    by (auto simp: has_prices_def truthy_text_def split: option.splits)
  show "riskRewardData [example_trade ''100'' None] [] =
        [\<lparr>rr_risk = Fin 5, rr_reward = Fin 10, rr_ratio = Fin 2, rr_pnl = Fin 100,
          rr_stockName = ''ACME'', rr_tradeDate = ''2024-03-04'', rr_isWin = True\<rparr>]"
    by code_simp
  show "riskRewardData [(example_trade ''100'' None)\<lparr>stopLoss := None\<rparr>] [] = []"
    by code_simp
qed

theorem C6_risk_reward_witness:
  "rr_risk (riskRewardRow (example_trade ''100'' None)) = Fin 5
   \<and> rr_reward (riskRewardRow (example_trade ''100'' None)) = Fin 10
   \<and> rr_ratio (riskRewardRow (example_trade ''100'' None)) = Fin 2
   \<and> \<not> has_prices ((example_trade ''100'' None)\<lparr>stopLoss := None\<rparr>)
   \<and> riskRewardData ([example_trade ''100'' None] @ (example_trade ''100'' None)\<lparr>stopLoss := None\<rparr> # []) []
       = riskRewardData ([example_trade ''100'' None] @ []) []"
proof -
  have f: "entryPrice (example_trade ''100'' None) = Some ''100''"
      "exitPrice (example_trade ''100'' None) = Some ''110''"
      "stopLoss (example_trade ''100'' None) = Some ''95''"
    by (simp_all add: example_trade_def)
  have p: "parseFloat ''100'' = Fin 100" "parseFloat ''110'' = Fin 110" "parseFloat ''95'' = Fin 95"
    by code_simp+
  have n: "\<not> has_prices ((example_trade ''100'' None)\<lparr>stopLoss := None\<rparr>)"
    by (simp add: has_prices_def truthy_text_def)
  note a = C6_risk_reward [where t = "example_trade ''100'' None" and es = "''100''"
      and xs = "''110''" and ss = "''95''" and e = 100 and x = 110 and s = 95]
  note b = C6_risk_reward [where t = "(example_trade ''100'' None)\<lparr>stopLoss := None\<rparr>"
      and before = "[example_trade ''100'' None]" and after = "[]" and strategies = "[]"]
  from a f p have "rr_risk (riskRewardRow (example_trade ''100'' None)) = Fin 5
   \<and> rr_reward (riskRewardRow (example_trade ''100'' None)) = Fin 10
   \<and> rr_ratio (riskRewardRow (example_trade ''100'' None)) = Fin 2"
    by simp
  moreover from b n have
    "riskRewardData ([example_trade ''100'' None] @ (example_trade ''100'' None)\<lparr>stopLoss := None\<rparr> # []) []
       = riskRewardData ([example_trade ''100'' None] @ []) []"
    by blast
  ultimately show ?thesis using n by blast
qed

section \<open>Properties of the weekly chart\<close>

lemma weekStart_sunday:
  "getDay (weekStart day) = 0" "weekStart day \<le> day" "day < weekStart day + 7"
  unfolding weekStart_def getDay_def by presburger+

lemma weeklyStep_week_of:
  "weeklyStep tz acc t =
     (case week_of tz (tradeDate t) of
        None \<Rightarrow> Inl RangeError
      | Some (k, l) \<Rightarrow>
          Inr (upsert k
                 \<lparr>week = l, wk_trades = 0, totalVolume = Fin 0, avgPnL = Fin 0, pnlSum = Fin 0\<rparr>
                 (addToWeek (js_mul (parseFloat (text_or_0 (entryPrice t)))
                                    (Fin (real_of_int (quantity t))))
                            (parseFloat (text_or_0 (profitLoss t))))
                 acc))"
  by (simp add: weeklyStep_def week_of_def week_of_ymd_def Let_def split: option.splits)

lemma trade_on_fields:
  "tradeDate (trade_on date) = date"
  "js_mul (parseFloat (text_or_0 (entryPrice (trade_on date)))) (Fin (real_of_int (quantity (trade_on date))))
     = Fin 1000"
  "parseFloat (text_or_0 (profitLoss (trade_on date))) = Fin 100"
proof -
  have p: "parseFloat ''100'' = Fin 100" by code_simp
  show "tradeDate (trade_on date) = date" by (simp add: trade_on_def)
  show "js_mul (parseFloat (text_or_0 (entryPrice (trade_on date)))) (Fin (real_of_int (quantity (trade_on date))))
     = Fin 1000"
    by (simp add: trade_on_def example_trade_def text_or_0_def p)
  show "parseFloat (text_or_0 (profitLoss (trade_on date))) = Fin 100"
    by (simp add: trade_on_def example_trade_def text_or_0_def p)
qed

lemma weeklyStep_trade_on:
  "week_of tz date = Some (k, l) \<Longrightarrow>
   weeklyStep tz acc (trade_on date) =
     Inr (upsert k \<lparr>week = l, wk_trades = 0, totalVolume = Fin 0, avgPnL = Fin 0, pnlSum = Fin 0\<rparr>
            (addToWeek (Fin 1000) (Fin 100)) acc)"
  by (simp add: weeklyStep_week_of trade_on_fields)

lemma weekly_fold_distinct:
  "list_all2 (\<lambda>date kl. week_of tz date = Some kl) dates kls \<Longrightarrow>
   distinct (map fst acc @ map fst kls) \<Longrightarrow>
   foldE (weeklyStep tz) acc (map trade_on dates) =
     Inr (acc @ map (\<lambda>(k, l). (k, \<lparr>week = l, wk_trades = 1, totalVolume = Fin 1000,
                                      avgPnL = Fin 100, pnlSum = Fin 100\<rparr>)) kls)"
proof (induction dates kls arbitrary: acc rule: list_all2_induct)
  case Nil
  then show ?case by simp
next
  case (Cons date dates kl kls)
  obtain k l where kl: "kl = (k, l)" by (cases kl)
  from Cons.prems kl have new: "k \<notin> fst ` set acc" by auto
  let ?row = "\<lparr>week = l, wk_trades = 1, totalVolume = Fin 1000, avgPnL = Fin 100, pnlSum = Fin 100\<rparr>"
  have step: "weeklyStep tz acc (trade_on date) = Inr (acc @ [(k, ?row)])"
    using Cons.hyps(1) kl new by (simp add: weeklyStep_trade_on upsert_new addToWeek_def)
  from Cons.prems kl have "distinct (map fst (acc @ [(k, ?row)]) @ map fst kls)" by auto
  from Cons.IH [OF this] step kl show ?case by simp
qed

lemma label_order:
  "not_after (js_sub (label_time a) (label_time b)) = (label_day a \<le> label_day b)"
  by (simp add: label_time_def label_day_def not_after_diff split: prod.splits)

lemma chart_by_label:
  "TradeFrequencyChart label_time tz trades strategies =
     (case weeklyData tz trades strategies of
        Inl e \<Rightarrow> Inl e
      | Inr acc \<Rightarrow> Inr (slice_last 12 (sort_key (\<lambda>r. label_day (week r)) (map snd acc))))"
proof -
  have "js_sort (\<lambda>a b. js_sub (label_time (week a)) (label_time (week b))) rows =
      sort_key (\<lambda>r. label_day (week r)) rows" for rows :: "WeekRow list"
    by (rule js_sort_key) (simp add: label_order)
  then show ?thesis by (simp add: TradeFrequencyChart_def split: sum.splits)
qed

lemma chart_labels:
  "map_sum id (map week) (TradeFrequencyChart label_time tz trades strategies) =
     map_sum id (\<lambda>acc. slice_last 12 (sort_key label_day (map (\<lambda>kw. week (snd kw)) acc)))
       (weeklyData tz trades strategies)"
proof (cases "weeklyData tz trades strategies")
  case (Inl e)
  then show ?thesis by (simp add: chart_by_label)
next
  case (Inr acc)
  have "map week (sort_key (\<lambda>r. label_day (week r)) (map snd acc)) =
      sort_key label_day (map week (map snd acc))"
    by (rule map_sort_key)
  then have "map week (slice_last 12 (sort_key (\<lambda>r. label_day (week r)) (map snd acc))) =
      slice_last 12 (sort_key label_day (map (\<lambda>kw. week (snd kw)) acc))"
    unfolding slice_last_def drop_map [symmetric] by (simp add: comp_def)
  with Inr show ?thesis by (simp add: chart_by_label)
qed

lemma week_of_march:
  "week_of 0 ''2024-03-04'' = Some ((2024, 3, 3), (3, 3))"
  "week_of 0 ''2024-03-08'' = Some ((2024, 3, 3), (3, 3))"
  "week_of 0 ''2024-03-10'' = Some ((2024, 3, 10), (3, 10))"
  "week_of 330 ''2024-03-04'' = Some ((2024, 3, 2), (3, 3))"
  "week_of 330 ''2024-03-08'' = Some ((2024, 3, 2), (3, 3))"
  "week_of 330 ''2024-03-10'' = Some ((2024, 3, 9), (3, 10))"
  by code_simp+

lemma weeks_new_year:
  "list_all2 (\<lambda>date kl. week_of 0 date = Some kl) [''2023-12-31'', ''2024-01-07'']
     [((2023, 12, 31), (12, 31)), ((2024, 1, 7), (1, 7))]"
  by code_simp

lemma weeks_thirteen:
  "list_all2 (\<lambda>date kl. week_of 0 date = Some kl) thirteen_sundays
     [((2023, 11, 5), (11, 5)), ((2023, 11, 12), (11, 12)), ((2023, 11, 19), (11, 19)),
      ((2023, 11, 26), (11, 26)), ((2023, 12, 3), (12, 3)), ((2023, 12, 10), (12, 10)),
      ((2023, 12, 17), (12, 17)), ((2023, 12, 24), (12, 24)), ((2023, 12, 31), (12, 31)),
      ((2024, 1, 7), (1, 7)), ((2024, 1, 14), (1, 14)), ((2024, 1, 21), (1, 21)),
      ((2024, 1, 28), (1, 28))]"
  by code_simp

lemma sort_new_year:
  "slice_last 12 (sort_key label_day [(12, 31), (1, 7)]) = [(1, 7), (12, 31)]"
  by code_simp

lemma sort_thirteen:
  "slice_last 12 (sort_key label_day
       [(11, 5), (11, 12), (11, 19), (11, 26), (12, 3), (12, 10), (12, 17), (12, 24), (12, 31),
        (1, 7), (1, 14), (1, 21), (1, 28)])
     = [(1, 14), (1, 21), (1, 28), (11, 5), (11, 12), (11, 19), (11, 26),
        (12, 3), (12, 10), (12, 17), (12, 24), (12, 31)]"
  by code_simp

lemma week_of_same_label:
  "week_of 0 ''2024-03-03'' = Some ((2024, 3, 3), (3, 3))"
  "week_of 0 ''2019-03-03'' = Some ((2019, 3, 3), (3, 3))"
  by code_simp+

lemma same_label_weeks:
  "weeklyData 0 same_label_trades [] =
     Inr [((2024, 3, 3), \<lparr>week = (3, 3), wk_trades = 1, totalVolume = Fin 1000, avgPnL = Fin 2, pnlSum = Fin 2\<rparr>),
          ((2019, 3, 3), \<lparr>week = (3, 3), wk_trades = 1, totalVolume = Fin 1000, avgPnL = Fin 1, pnlSum = Fin 1\<rparr>)]"
proof -
  have p: "parseFloat ''100'' = Fin 100" "parseFloat ''2'' = Fin 2" "parseFloat ''1'' = Fin 1"
    by code_simp+
  show ?thesis
    by (simp add: weeklyData_def active_nil same_label_trades_def weeklyStep_week_of
        week_of_same_label example_trade_def text_or_0_def p addToWeek_def)
qed

lemma same_label_order:
  "map_sum id (map (\<lambda>w. (week w, pnlSum w))) (TradeFrequencyChart labelTime 0 same_label_trades [])
     = Inr [((3, 3), Fin 2), ((3, 3), Fin 1)]"
  by (simp add: TradeFrequencyChart_def same_label_weeks js_sort_def slice_last_def not_after_self)

text \<open>
  C4. What the weekly chart does. The start of a week is the Sunday on or before the
  day. In a zone at UTC the trades of 2024-03-04 and 2024-03-08 share the bucket keyed
  2024-03-03 and the trade of 2024-03-10 has the bucket keyed 2024-03-10; in a zone east
  of UTC (here 330 minutes) the keys are the Saturdays 2024-03-02 and 2024-03-09, the
  UTC dates of the local midnights, under the same labels. The buckets are sorted by
  their labels, which have no year. With the labels read as V8 reads them, the week of
  2024-01-07 comes before the week of 2023-12-31, and of thirteen weeks in a row from
  2023-11-05 to 2024-01-28 the twelve that are kept leave out the week of 2024-01-07 and
  not the oldest one. However an engine reads the labels, two weeks with the same label
  stay in the order of the input: the week of 2024-03-03 (profit/loss 2), listed first,
  comes before the week of 2019-03-03 (profit/loss 1).
\<close>

theorem C4_weekly_buckets:
  "getDay (weekStart day) = 0 \<and> weekStart day \<le> day \<and> day < weekStart day + 7
   \<and> map_sum id (map (\<lambda>(k, w). (k, week w, wk_trades w)))
        (weeklyData 0 [trade_on ''2024-03-04'', trade_on ''2024-03-08'', trade_on ''2024-03-10''] [])
      = Inr [((2024, 3, 3), (3, 3), 2), ((2024, 3, 10), (3, 10), 1)]
   \<and> map_sum id (map (\<lambda>(k, w). (k, week w, wk_trades w)))
        (weeklyData 330 [trade_on ''2024-03-04'', trade_on ''2024-03-08'', trade_on ''2024-03-10''] [])
      = Inr [((2024, 3, 2), (3, 3), 2), ((2024, 3, 9), (3, 10), 1)]
   \<and> map_sum id (map week)
        (TradeFrequencyChart label_time 0 [trade_on ''2023-12-31'', trade_on ''2024-01-07''] [])
      = Inr [(1, 7), (12, 31)]
   \<and> map_sum id (map week) (TradeFrequencyChart label_time 0 (map trade_on thirteen_sundays) [])
      = Inr [(1, 14), (1, 21), (1, 28), (11, 5), (11, 12), (11, 19), (11, 26),
             (12, 3), (12, 10), (12, 17), (12, 24), (12, 31)]
   \<and> map_sum id (map (\<lambda>w. (week w, pnlSum w)))
        (TradeFrequencyChart labelTime 0 same_label_trades [])
      = Inr [((3, 3), Fin 2), ((3, 3), Fin 1)]"
proof (intro conjI)
  show "getDay (weekStart day) = 0" "weekStart day \<le> day" "day < weekStart day + 7"
    by (rule weekStart_sunday)+
  show "map_sum id (map (\<lambda>(k, w). (k, week w, wk_trades w)))
        (weeklyData 0 [trade_on ''2024-03-04'', trade_on ''2024-03-08'', trade_on ''2024-03-10''] [])
      = Inr [((2024, 3, 3), (3, 3), 2), ((2024, 3, 10), (3, 10), 1)]"
    by (simp add: weeklyData_def getActiveStrategyTrades_def weeklyStep_trade_on week_of_march
        addToWeek_def)
  show "map_sum id (map (\<lambda>(k, w). (k, week w, wk_trades w)))
        (weeklyData 330 [trade_on ''2024-03-04'', trade_on ''2024-03-08'', trade_on ''2024-03-10''] [])
      = Inr [((2024, 3, 2), (3, 3), 2), ((2024, 3, 9), (3, 10), 1)]"
    by (simp add: weeklyData_def getActiveStrategyTrades_def weeklyStep_trade_on week_of_march
        addToWeek_def)
  have "weeklyData 0 (map trade_on [''2023-12-31'', ''2024-01-07'']) [] =
      Inr ([] @ map (\<lambda>(k, l). (k, \<lparr>week = l, wk_trades = 1, totalVolume = Fin 1000,
                                      avgPnL = Fin 100, pnlSum = Fin 100\<rparr>))
                  [((2023, 12, 31), (12, 31)), ((2024, 1, 7), (1, 7))])"
    unfolding weeklyData_def active_nil
    by (rule weekly_fold_distinct [OF weeks_new_year]) simp
  then show "map_sum id (map week)
        (TradeFrequencyChart label_time 0 [trade_on ''2023-12-31'', trade_on ''2024-01-07''] [])
      = Inr [(1, 7), (12, 31)]"
    using sort_new_year by (simp add: chart_labels)
  have "weeklyData 0 (map trade_on thirteen_sundays) [] =
      Inr ([] @ map (\<lambda>(k, l). (k, \<lparr>week = l, wk_trades = 1, totalVolume = Fin 1000,
                                      avgPnL = Fin 100, pnlSum = Fin 100\<rparr>))
     [((2023, 11, 5), (11, 5)), ((2023, 11, 12), (11, 12)), ((2023, 11, 19), (11, 19)),
      ((2023, 11, 26), (11, 26)), ((2023, 12, 3), (12, 3)), ((2023, 12, 10), (12, 10)),
      ((2023, 12, 17), (12, 17)), ((2023, 12, 24), (12, 24)), ((2023, 12, 31), (12, 31)),
      ((2024, 1, 7), (1, 7)), ((2024, 1, 14), (1, 14)), ((2024, 1, 21), (1, 21)),
      ((2024, 1, 28), (1, 28))])"
    unfolding weeklyData_def active_nil
    by (rule weekly_fold_distinct [OF weeks_thirteen]) simp
  then show "map_sum id (map week) (TradeFrequencyChart label_time 0 (map trade_on thirteen_sundays) [])
      = Inr [(1, 14), (1, 21), (1, 28), (11, 5), (11, 12), (11, 19), (11, 26),
             (12, 3), (12, 10), (12, 17), (12, 24), (12, 31)]"
    using sort_thirteen by (simp add: chart_labels)
  show "map_sum id (map (\<lambda>w. (week w, pnlSum w)))
        (TradeFrequencyChart labelTime 0 same_label_trades [])
      = Inr [((3, 3), Fin 2), ((3, 3), Fin 1)]"
    by (rule same_label_order)
qed

section \<open>Properties of the mood tracker\<close>

lemma foldl_add_scores:
  "foldl add_score (Sum (Fin a)) (map (\<lambda>r. Score (Fin r)) rs) = Sum (Fin (a + sum_list rs))"
  by (induction rs arbitrary: a) (simp_all add: add.assoc)

lemma avgMood_mean:
  "avgMood (map (\<lambda>r. Score (Fin r)) rs) = (if rs = [] then NaN else Fin (sum_list rs / real (length rs)))"
  by (simp add: avgMood_def foldl_add_scores)

lemma emotionScore_cases:
  "emotionScore (Some label) =
     (if label = [] then Score (Fin 3)
      else case map_of EMOTION_SCORES label of
             Some n \<Rightarrow> Score (Fin n)
           | None \<Rightarrow> if label \<in> set Object_prototype_names then Inherited else Score (Fin 3))"
proof -
  have nz: "map_of EMOTION_SCORES l = Some n \<Longrightarrow> n \<noteq> 0" for l n
    by (auto simp: EMOTION_SCORES_def split: if_splits)
  have neutral: "map_of EMOTION_SCORES ''Neutral'' = Some 3"
    by (simp add: EMOTION_SCORES_def)
  show ?thesis
    using nz neutral by (auto simp: emotionScore_def Let_def split: option.splits)
qed

text \<open>
  C8. What the mood scorer does. The seven labels of the table score 5, 4, 4, 3, 2, 1, 1;
  an absent or empty label scores 3, and so does a label that is neither in the table
  nor a name that every object inherits, such as \<open>Happy\<close>. For a name that every
  object inherits, such as \<open>constructor\<close>, the lookup gives the inherited function: the
  score is not 3, the day's mood score is NaN and its label Very Negative; nothing is
  thrown. A day's mood score is the mean of its scores when they are numbers, and the
  label of a score follows the bands at 4.5, 3.5, 2.5 and 1.5.
\<close>

theorem C8_mood_scores:
  "map (\<lambda>l. emotionScore (Some l))
      [''Confident'', ''Excited'', ''Disciplined'', ''Neutral'', ''Anxious'', ''Fearful'', ''Greedy'']
     = map (\<lambda>r. Score (Fin r)) [5, 4, 4, 3, 2, 1, 1]
   \<and> emotionScore None = Score (Fin 3)
   \<and> emotionScore (Some []) = Score (Fin 3)
   \<and> emotionScore (Some ''Happy'') = Score (Fin 3)
   \<and> emotionScore (Some label) =
       (if label = [] then Score (Fin 3)
        else case map_of EMOTION_SCORES label of
               Some n \<Rightarrow> Score (Fin n)
             | None \<Rightarrow> if label \<in> set Object_prototype_names then Inherited else Score (Fin 3))
   \<and> emotionScore (Some ''constructor'') = Inherited
   \<and> PsychologyMoodTracker [trade_feeling (Some ''constructor'')] []
       = Inr [\<lparr>fullDate = ''2024-03-04'', moodScore = NaN, mood_pnl = Fin 100, mood_trades = 1,
               moodLabel = ''Very Negative''\<rparr>]
   \<and> PsychologyMoodTracker [trade_feeling (Some ''Happy'')] []
       = Inr [\<lparr>fullDate = ''2024-03-04'', moodScore = Fin 3, mood_pnl = Fin 100, mood_trades = 1,
               moodLabel = ''Neutral''\<rparr>]
   \<and> avgMood (map (\<lambda>r. Score (Fin r)) rs) = (if rs = [] then NaN else Fin (sum_list rs / real (length rs)))
   \<and> (getMoodLabel (Fin r) = ''Very Positive'') = (4.5 \<le> r)
   \<and> (getMoodLabel (Fin r) = ''Positive'') = (3.5 \<le> r \<and> r < 4.5)
   \<and> (getMoodLabel (Fin r) = ''Neutral'') = (2.5 \<le> r \<and> r < 3.5)
   \<and> (getMoodLabel (Fin r) = ''Negative'') = (1.5 \<le> r \<and> r < 2.5)
   \<and> (getMoodLabel (Fin r) = ''Very Negative'') = (r < 1.5)
   \<and> getMoodLabel NaN = ''Very Negative''"
proof (intro conjI)
  show "map (\<lambda>l. emotionScore (Some l))
      [''Confident'', ''Excited'', ''Disciplined'', ''Neutral'', ''Anxious'', ''Fearful'', ''Greedy'']
     = map (\<lambda>r. Score (Fin r)) [5, 4, 4, 3, 2, 1, 1]"
    by (simp add: emotionScore_def EMOTION_SCORES_def)
  show "emotionScore None = Score (Fin 3)" "emotionScore (Some []) = Score (Fin 3)"
    by (simp_all add: emotionScore_def EMOTION_SCORES_def)
  show "emotionScore (Some ''Happy'') = Score (Fin 3)"
    by (simp add: emotionScore_def EMOTION_SCORES_def Object_prototype_names_def)
  show "emotionScore (Some label) =
       (if label = [] then Score (Fin 3)
        else case map_of EMOTION_SCORES label of
               Some n \<Rightarrow> Score (Fin n)
             | None \<Rightarrow> if label \<in> set Object_prototype_names then Inherited else Score (Fin 3))"
    by (rule emotionScore_cases)
  show "emotionScore (Some ''constructor'') = Inherited"
    by (simp add: emotionScore_def EMOTION_SCORES_def Object_prototype_names_def)
  show "PsychologyMoodTracker [trade_feeling (Some ''constructor'')] []
       = Inr [\<lparr>fullDate = ''2024-03-04'', moodScore = NaN, mood_pnl = Fin 100, mood_trades = 1,
               moodLabel = ''Very Negative''\<rparr>]"
    by code_simp
  show "PsychologyMoodTracker [trade_feeling (Some ''Happy'')] []
       = Inr [\<lparr>fullDate = ''2024-03-04'', moodScore = Fin 3, mood_pnl = Fin 100, mood_trades = 1,
               moodLabel = ''Neutral''\<rparr>]"
    by code_simp
  show "avgMood (map (\<lambda>r. Score (Fin r)) rs) = (if rs = [] then NaN else Fin (sum_list rs / real (length rs)))"
    by (rule avgMood_mean)
  show "(getMoodLabel (Fin r) = ''Very Positive'') = (4.5 \<le> r)"
    "(getMoodLabel (Fin r) = ''Positive'') = (3.5 \<le> r \<and> r < 4.5)"
    "(getMoodLabel (Fin r) = ''Neutral'') = (2.5 \<le> r \<and> r < 3.5)"
    "(getMoodLabel (Fin r) = ''Negative'') = (1.5 \<le> r \<and> r < 2.5)"
    "(getMoodLabel (Fin r) = ''Very Negative'') = (r < 1.5)"
    "getMoodLabel NaN = ''Very Negative''"
    by (auto simp: getMoodLabel_def)
qed

end
